theory Spec2Isabelle
  imports Main
begin

section \<open>Token codec (backend/qr-code-generator.js)\<close>

text \<open>
  Instants are epoch milliseconds, the numbers \<^verbatim>\<open>Date.now()\<close> and
  \<^verbatim>\<open>new Date(..).getTime()\<close> give; they are integers well inside the range in
  which JavaScript numbers are exact and inside the range of \<^verbatim>\<open>Date\<close>, so
  \<^verbatim>\<open>Math.floor(a / b)\<close> on them is \<open>div\<close> on \<open>int\<close> and
  \<^verbatim>\<open>toISOString\<close> never throws.

  The HMAC of the \<^verbatim>\<open>crypto\<close> library is a parameter of every function that signs:
  \<open>hmac key data\<close> stands for
  \<^verbatim>\<open>crypto.createHmac('sha256', key).update(data).digest('hex')\<close>.
  The key is \<^verbatim>\<open>QR_SECRET\<close> (an environment variable or the built-in default).
  The values of \<^verbatim>\<open>crypto.randomBytes\<close> (nonce, secret) are parameters as well.
\<close>

type_synonym hmac_fn = "string \<Rightarrow> string \<Rightarrow> string"

definition QR_EXPIRY_SECONDS :: int where
  "QR_EXPIRY_SECONDS = 30"

subsection \<open>Numbers in template strings\<close>

definition digit_char :: "nat \<Rightarrow> char" where
  "digit_char d = ''0123456789'' ! d"

fun show_nat :: "nat \<Rightarrow> string" where
  "show_nat n = (if n < 10 then [digit_char n] else show_nat (n div 10) @ [digit_char (n mod 10)])"

declare show_nat.simps [simp del]

text \<open>What a template string writes for an integer number: decimal digits, with a
  minus sign below zero.\<close>

definition show_int :: "int \<Rightarrow> string" where
  "show_int i = (if i < 0 then CHR ''-'' # show_nat (nat (- i)) else show_nat (nat i))"

subsection \<open>The scanned object\<close>

text \<open>
  \<^verbatim>\<open>qrData\<close> is a parsed JSON object. Its string fields are strings here, the empty
  string standing for every falsy value (absent, null, empty). The \<^verbatim>\<open>timestamp\<close>
  field keeps the distinction \<^verbatim>\<open>validateQR\<close> tests with \<^verbatim>\<open>typeof\<close>. The
  \<^verbatim>\<open>expiresAt\<close> field is read twice, for its truthiness and through
  \<^verbatim>\<open>new Date(qrData.expiresAt).getTime()\<close>; it is represented by what those two
  reads give: absent, not a date (NaN), or the instant the ISO string denotes.
\<close>

datatype ts_field = TsMissing | TsNotNumber | TsNumber int

datatype date_field = NoDate | NotADate | Instant int

record qr_data =
  sessionId :: string
  timestamp :: ts_field
  nonce :: string
  signature :: string
  expiresAt :: date_field

text \<open>\<^verbatim>\<open>!qrData.timestamp\<close>: absent, or the number 0.\<close>

fun ts_falsy :: "ts_field \<Rightarrow> bool" where
  "ts_falsy TsMissing = True"
| "ts_falsy TsNotNumber = False"
| "ts_falsy (TsNumber n) = (n = 0)"

text \<open>The signed string \<^verbatim>\<open>`${sessionId}-${timestamp}-${nonce}`\<close>.\<close>

definition signed_data :: "string \<Rightarrow> int \<Rightarrow> string \<Rightarrow> string" where
  "signed_data sid ts nc = sid @ ''-'' @ show_int ts @ ''-'' @ nc"

subsection \<open>generateSecureQR\<close>

text \<open>The result of \<^verbatim>\<open>generateSecureQR\<close>, without the rendered image
  \<^verbatim>\<open>qr_code\<close> (the output of the \<^verbatim>\<open>qrcode\<close> library).\<close>

record secure_qr =
  qr_data_of :: qr_data
  expires_at :: int
  session_id_of :: string
  secret :: string

definition generateSecureQR ::
  "hmac_fn \<Rightarrow> string \<Rightarrow> string \<Rightarrow> int \<Rightarrow> string \<Rightarrow> string \<Rightarrow> secure_qr" where
  "generateSecureQR hmac key sid now nc qrCodeSecret =
     (let ts = now;
          dat = signed_data sid ts nc;
          sig = hmac key dat;
          qrData = \<lparr> sessionId = sid, timestamp = TsNumber ts, nonce = nc, signature = sig,
                     expiresAt = Instant (ts + QR_EXPIRY_SECONDS * 1000) \<rparr>
      in \<lparr> qr_data_of = qrData, expires_at = ts + QR_EXPIRY_SECONDS * 1000,
           session_id_of = sid, secret = qrCodeSecret \<rparr>)"

subsection \<open>validateQR\<close>

datatype validation = Valid string int | Invalid string

fun isValid :: "validation \<Rightarrow> bool" where
  "isValid (Valid sid ts) = True"
| "isValid (Invalid e) = False"

text \<open>
  \<^verbatim>\<open>validateQR\<close> reads the clock twice: \<open>now\<close> for the expiry check and
  \<open>currentTime\<close> for the age check. \<open>None\<close> is an argument that is not an object.
\<close>

fun validateQR :: "hmac_fn \<Rightarrow> string \<Rightarrow> int \<Rightarrow> int \<Rightarrow> qr_data option \<Rightarrow> validation" where
  "validateQR hmac key now currentTime None = Invalid ''Invalid QR code format''"
| "validateQR hmac key now currentTime (Some q) =
     (if sessionId q = [] then Invalid ''Missing required field: sessionId''
      else if ts_falsy (timestamp q) then Invalid ''Missing required field: timestamp''
      else if nonce q = [] then Invalid ''Missing required field: nonce''
      else if signature q = [] then Invalid ''Missing required field: signature''
      else if expiresAt q = NoDate then Invalid ''Missing required field: expiresAt''
      else (case timestamp q of
          TsMissing \<Rightarrow> Invalid ''Invalid timestamp format''
        | TsNotNumber \<Rightarrow> Invalid ''Invalid timestamp format''
        | TsNumber qrTimestamp \<Rightarrow>
            if qrTimestamp \<le> 0 then Invalid ''Invalid timestamp format''
            else (case expiresAt q of
                NoDate \<Rightarrow> Invalid ''Invalid expiry date format''
              | NotADate \<Rightarrow> Invalid ''Invalid expiry date format''
              | Instant e \<Rightarrow>
                  if now > e then Invalid ''QR code has expired''
                  else if currentTime - qrTimestamp > 30000 then Invalid ''QR code is too old''
                  else if hmac key (signed_data (sessionId q) qrTimestamp (nonce q)) \<noteq> signature q
                    then Invalid ''Invalid QR code signature''
                  else Valid (sessionId q) qrTimestamp)))"

declare validateQR.simps [simp del]

subsection \<open>generateRotatingQR\<close>

record rotating_qr =
  rq_secret :: string
  rq_expires_at :: int
  rq_data :: string
  rq_sessionId :: string
  rq_timestamp :: int

definition generateRotatingQR :: "hmac_fn \<Rightarrow> string \<Rightarrow> string \<Rightarrow> int \<Rightarrow> rotating_qr" where
  "generateRotatingQR hmac key sid now =
     (let ts = (now div 30000) * 30000;
          dat = sid @ '':'' @ show_int ts
      in \<lparr> rq_secret = hmac key dat, rq_expires_at = ts + 30000, rq_data = dat,
           rq_sessionId = sid, rq_timestamp = ts \<rparr>)"

section \<open>The store (database/final-optimized-schema.sql)\<close>

text \<open>
  The tables the session engine reads and writes, with the columns it uses. A column
  name carries the prefix of its table (\<open>cs\<close> for \<^verbatim>\<open>class_sessions\<close>, \<open>ar\<close> for
  \<^verbatim>\<open>attendance_records\<close>, \<open>en\<close> for \<^verbatim>\<open>enrollments\<close>, \<open>st\<close> for
  \<^verbatim>\<open>students\<close>, \<open>nt\<close> for \<^verbatim>\<open>notifications\<close>), since several tables have a
  \<^verbatim>\<open>status\<close> and a \<^verbatim>\<open>student_id\<close>. Timestamp columns hold instants. The audit
  columns \<^verbatim>\<open>created_at\<close> and \<^verbatim>\<open>updated_at\<close> are left out.

  \<^verbatim>\<open>class_sessions\<close> is a map from the primary key \<^verbatim>\<open>id\<close> to the row.
  \<^verbatim>\<open>attendance_records\<close> is a list of rows: its constraint
  \<^verbatim>\<open>UNIQUE(session_id, student_id)\<close> is checked by the insert below, as the database
  checks it, and is not built into the type.
\<close>

record class_session =
  cs_class_instance_id :: string
  cs_date :: string
  cs_start_time :: string
  cs_end_time :: string
  cs_status :: string
  cs_notes :: "string option"
  cs_qr_secret :: "string option"
  cs_qr_expires_at :: "int option"
  cs_is_active :: bool
  cs_attendance_count :: int

record student =
  st_user_id :: string
  st_student_id :: string

record enrollment =
  en_student_id :: string
  en_class_instance_id :: string
  en_status :: string

record attendance_record =
  ar_id :: nat
  ar_session_id :: string
  ar_student_id :: string
  ar_scanned_at :: int
  ar_status :: string
  ar_minutes_late :: int
  ar_device_fingerprint :: "string option"
  ar_ip_address :: "string option"

text \<open>The object handed to \<^verbatim>\<open>insert\<close>: a column that is \<open>None\<close> is not given and
  takes its default (\<^verbatim>\<open>scanned_at DEFAULT NOW()\<close>, \<^verbatim>\<open>minutes_late DEFAULT 0\<close>).\<close>

record new_attendance =
  na_session_id :: string
  na_student_id :: string
  na_scanned_at :: "int option"
  na_status :: string
  na_minutes_late :: "int option"
  na_device_fingerprint :: "string option"
  na_ip_address :: "string option"

text \<open>A notification row, without its message text and metadata. The column
  \<^verbatim>\<open>session_id\<close> is null in a row inserted without it.\<close>

record notification =
  nt_user_id :: string
  nt_type :: string
  nt_title :: string
  nt_session_id :: "string option"

subsection \<open>Events sent through \<^verbatim>\<open>global.io\<close>\<close>

text \<open>The room \<^verbatim>\<open>professor-${professorId}\<close> is named by the class instance whose
  professor it is. The \<^verbatim>\<open>attendanceRate\<close> of the attendance events, a rounded
  floating-point quotient of the two counts they carry, is left out.\<close>

datatype room = Everyone | Session_room string | Professor_room string

datatype payload =
    Status_payload string string
  | Session_payload string
  | Attendance_payload string string string int nat nat
  | Dashboard_payload string nat nat
  | Qr_payload string int

datatype event = Emit room string payload

subsection \<open>The state of the server\<close>

text \<open>
  The database, and the state of the Node process: the map \<^verbatim>\<open>activeRotations\<close>, the
  live \<^verbatim>\<open>setInterval\<close> timers (handle, and the session id the callback closes over),
  the one-hour \<^verbatim>\<open>setTimeout\<close> callbacks registered so far (the session id each
  closes over), and the events emitted so far. \<open>next_id\<close> stands for \<^verbatim>\<open>uuid_generate_v4()\<close>, \<open>next_handle\<close>
  for the fresh handle \<^verbatim>\<open>setInterval\<close> returns.
\<close>

record world =
  class_sessions :: "string \<rightharpoonup> class_session"
  students :: "student list"
  enrollments :: "enrollment list"
  attendance_records :: "attendance_record list"
  notifications :: "notification list"
  next_id :: nat
  activeRotations :: "string \<rightharpoonup> nat"
  intervals :: "(nat \<times> string) list"
  next_handle :: nat
  timeouts :: "string list"
  emitted :: "event list"

text \<open>What the process takes from its environment: the HMAC and its key, the parser
  behind \<^verbatim>\<open>new Date(string)\<close>, and whether \<^verbatim>\<open>global.io\<close> is set. The parser
  is applied to \<^verbatim>\<open>`${session.date}T${session.start_time}`\<close> only, the text of a
  \<^verbatim>\<open>DATE\<close> and a \<^verbatim>\<open>TIME\<close> column, which is always a valid date: it gives an
  instant.\<close>

record env =
  hmac_of :: hmac_fn
  QR_SECRET :: string
  Date_parse :: "string \<Rightarrow> int"
  io :: bool

datatype db_error = Not_single | Unique_violation | Value_too_long

subsection \<open>Queries\<close>

text \<open>\<^verbatim>\<open>.single()\<close>: the row when exactly one row matches, an error otherwise.\<close>

definition single :: "'a list \<Rightarrow> 'a option" where
  "single xs = (case xs of [x] \<Rightarrow> Some x | _ \<Rightarrow> None)"

text \<open>\<^verbatim>\<open>from('class_sessions').select(..).eq('id', sid).eq('status', st).single()\<close>\<close>

definition session_with_status :: "world \<Rightarrow> string \<Rightarrow> string \<Rightarrow> class_session option" where
  "session_with_status w sid st =
     (case class_sessions w sid of
        None \<Rightarrow> None
      | Some s \<Rightarrow> if cs_status s = st then Some s else None)"

text \<open>\<^verbatim>\<open>from('class_sessions').update(..).eq('id', sid)\<close>\<close>

definition update_session :: "string \<Rightarrow> (class_session \<Rightarrow> class_session) \<Rightarrow> world \<Rightarrow> world" where
  "update_session sid f w =
     (case class_sessions w sid of
        None \<Rightarrow> w
      | Some s \<Rightarrow> w\<lparr>class_sessions := (class_sessions w)(sid \<mapsto> f s)\<rparr>)"

definition records_of_session :: "world \<Rightarrow> string \<Rightarrow> attendance_record list" where
  "records_of_session w sid = filter (\<lambda>r. ar_session_id r = sid) (attendance_records w)"

definition active_enrollments :: "world \<Rightarrow> string \<Rightarrow> enrollment list" where
  "active_enrollments w c =
     filter (\<lambda>e. en_class_instance_id e = c \<and> en_status e = ''active'') (enrollments w)"

subsection \<open>Inserting attendance records\<close>

definition ar_key :: "attendance_record \<Rightarrow> string \<times> string" where
  "ar_key r = (ar_session_id r, ar_student_id r)"

text \<open>The trigger \<^verbatim>\<open>trigger_update_session_attendance_count\<close>, after the insert of a
  row of session \<open>sid\<close>.\<close>

definition update_session_attendance_count :: "string \<Rightarrow> world \<Rightarrow> world" where
  "update_session_attendance_count sid w =
     update_session sid (\<lambda>s. s\<lparr>cs_attendance_count := int (length (records_of_session w sid))\<rparr>) w"

text \<open>The column \<^verbatim>\<open>device_fingerprint VARCHAR(255)\<close>: null is taken; a text of more
  than 255 characters is refused, unless the characters in excess are all spaces, and
  then it is cut to 255 characters.\<close>

definition fingerprint_fits :: "string option \<Rightarrow> bool" where
  "fingerprint_fits f =
     (case f of
        None \<Rightarrow> True
      | Some x \<Rightarrow> drop 255 x = replicate (length x - 255) (CHR '' ''))"

definition stored_fingerprint :: "string option \<Rightarrow> string option" where
  "stored_fingerprint f = map_option (take 255) f"

text \<open>One row: refused when its \<^verbatim>\<open>device_fingerprint\<close> does not fit the column (the
  value is formed before the index is looked at), and when a row with the same
  \<^verbatim>\<open>(session_id, student_id)\<close> is there.
  The foreign keys of the table are not checked here: every handler below inserts for a
  session it has just read and for a student of the \<^verbatim>\<open>students\<close> or
  \<^verbatim>\<open>enrollments\<close> table. The other column types are not checked either: the
  statuses written are at most seven characters (\<^verbatim>\<open>VARCHAR(20)\<close>), and
  \<^verbatim>\<open>ip_address\<close>, of type \<^verbatim>\<open>INET\<close>, is taken to hold an address, as the one
  the server reads off the connection is.\<close>

definition insert_row :: "new_attendance \<Rightarrow> int \<Rightarrow> world \<Rightarrow> db_error + attendance_record \<times> world" where
  "insert_row n now w =
     (if \<not> fingerprint_fits (na_device_fingerprint n) then Inl Value_too_long
      else if (na_session_id n, na_student_id n) \<in> set (map ar_key (attendance_records w))
      then Inl Unique_violation
      else
        let row = \<lparr> ar_id = next_id w, ar_session_id = na_session_id n,
                    ar_student_id = na_student_id n,
                    ar_scanned_at = (case na_scanned_at n of None \<Rightarrow> now | Some t \<Rightarrow> t),
                    ar_status = na_status n,
                    ar_minutes_late = (case na_minutes_late n of None \<Rightarrow> 0 | Some m \<Rightarrow> m),
                    ar_device_fingerprint = stored_fingerprint (na_device_fingerprint n),
                    ar_ip_address = na_ip_address n \<rparr>;
            w1 = w\<lparr>attendance_records := attendance_records w @ [row], next_id := Suc (next_id w)\<rparr>
        in Inr (row, update_session_attendance_count (na_session_id n) w1))"

text \<open>An insert of several rows is one statement: a refused row fails the statement, and
  the caller goes on with the state from before it.\<close>

fun insert_rows :: "new_attendance list \<Rightarrow> int \<Rightarrow> world \<Rightarrow> db_error + world" where
  "insert_rows [] now w = Inr w"
| "insert_rows (n # ns) now w =
     (case insert_row n now w of
        Inl e \<Rightarrow> Inl e
      | Inr (row, w') \<Rightarrow> insert_rows ns now w')"

definition emit :: "env \<Rightarrow> event list \<Rightarrow> world \<Rightarrow> world" where
  "emit e evs w = (if io e then w\<lparr>emitted := emitted w @ evs\<rparr> else w)"

section \<open>Rotation timers (startQRCodeRotation, stopQRCodeRotation)\<close>

text \<open>
  \<^verbatim>\<open>setInterval\<close> returns a fresh handle and the interval is live from then on;
  \<^verbatim>\<open>clearInterval\<close> takes it out of the live ones. A handle of Node is an object,
  so the test \<^verbatim>\<open>if (interval)\<close> of \<^verbatim>\<open>stopQRCodeRotation\<close> asks whether the map
  has an entry.
\<close>

definition startQRCodeRotation :: "string \<Rightarrow> world \<Rightarrow> world" where
  "startQRCodeRotation sid w =
     (let rotationInterval = next_handle w
      in w\<lparr> intervals := intervals w @ [(rotationInterval, sid)],
            next_handle := Suc (next_handle w),
            activeRotations := (activeRotations w)(sid \<mapsto> rotationInterval) \<rparr>)"

definition stopQRCodeRotation :: "string \<Rightarrow> world \<Rightarrow> world" where
  "stopQRCodeRotation sid w =
     (case activeRotations w sid of
        None \<Rightarrow> w
      | Some interval \<Rightarrow>
          w\<lparr> intervals := filter (\<lambda>(h, s). h \<noteq> interval) (intervals w),
              activeRotations := (activeRotations w)(sid := None) \<rparr>)"

text \<open>One run of the callback of the interval of session \<open>sid\<close>: a new token is stored and
  announced to the session's room.\<close>

definition rotation_tick :: "env \<Rightarrow> string \<Rightarrow> int \<Rightarrow> string \<Rightarrow> string \<Rightarrow> world \<Rightarrow> world" where
  "rotation_tick e sid now nc sec w =
     (let qrData = generateSecureQR (hmac_of e) (QR_SECRET e) sid now nc sec;
          w1 = update_session sid
                 (\<lambda>s. s\<lparr>cs_qr_secret := Some (secret qrData),
                        cs_qr_expires_at := Some (expires_at qrData)\<rparr>) w
      in emit e [Emit (Session_room sid) ''qr_code_update'' (Qr_payload sid (expires_at qrData))] w1)"

text \<open>The sessions that have a live interval: the ones for which tokens go on being issued.\<close>

definition rotating :: "world \<Rightarrow> string \<Rightarrow> bool" where
  "rotating w sid = (sid \<in> set (map snd (intervals w)))"

section \<open>Session lifecycle endpoints\<close>

text \<open>
  What a handler answers. \<open>Failed code message\<close> is a JSON error with that HTTP status;
  \<open>Server_error e\<close> is the 500 the \<^verbatim>\<open>catch\<close> block sends when an error \<open>e\<close> of the
  store was thrown; \<open>Already_recorded\<close> is the 409 of the scan endpoint with the
  \<^verbatim>\<open>id\<close>, \<^verbatim>\<open>scanned_at\<close> and \<^verbatim>\<open>status\<close> of the record found.
\<close>

datatype response =
    Session_ok class_session "secure_qr option"
  | Scan_ok nat int string int
  | Attendance_ok attendance_record
  | Already_recorded nat int string
  | Failed nat string
  | Server_error db_error

text \<open>\<^verbatim>\<open>notes || null\<close>\<close>

definition or_null :: "string option \<Rightarrow> string option" where
  "or_null notes = (case notes of None \<Rightarrow> None | Some n \<Rightarrow> if n = [] then None else Some n)"

definition notifyStudentsSessionActivated :: "string \<Rightarrow> world \<Rightarrow> world" where
  "notifyStudentsSessionActivated sid w =
     (case class_sessions w sid of
        None \<Rightarrow> w
      | Some session \<Rightarrow>
          let enrolled = active_enrollments w (cs_class_instance_id session)
          in w\<lparr>notifications := notifications w @
                 map (\<lambda>en. \<lparr> nt_user_id = en_student_id en, nt_type = ''system'',
                              nt_title = ''Class session has started!'',
                              nt_session_id = None \<rparr>) enrolled\<rparr>)"

subsection \<open>POST /api/sessions/:sessionId/activate\<close>

definition activate :: "env \<Rightarrow> string \<Rightarrow> string option \<Rightarrow> int \<Rightarrow> string \<Rightarrow> string \<Rightarrow> world
    \<Rightarrow> response \<times> world" where
  "activate e sid notes now nc sec w =
     (case session_with_status w sid ''scheduled'' of
        None \<Rightarrow> (Failed 400 ''Session not found or already activated'', w)
      | Some session \<Rightarrow>
          let qrData = generateSecureQR (hmac_of e) (QR_SECRET e) sid now nc sec;
              updatedSession =
                session\<lparr> cs_status := ''active'', cs_is_active := True,
                         cs_qr_secret := Some (secret qrData),
                         cs_qr_expires_at := Some (expires_at qrData),
                         cs_notes := or_null notes \<rparr>;
              w1 = update_session sid (\<lambda>s. updatedSession) w;
              w2 = startQRCodeRotation sid w1;
              w3 = w2\<lparr>timeouts := timeouts w2 @ [sid]\<rparr>;
              w4 = notifyStudentsSessionActivated sid w3;
              w5 = emit e [Emit Everyone ''session_status_update'' (Status_payload sid ''active''),
                           Emit Everyone ''session_activated'' (Session_payload sid)] w4
          in (Session_ok updatedSession (Some qrData), w5))"

subsection \<open>Reconciliation\<close>

text \<open>
  The step both completion paths run, in the same words (lines 377--415 of
  \<^verbatim>\<open>completeSessionAutomatically\<close> and lines 467--505 of the complete endpoint): an
  \<^verbatim>\<open>absent\<close> row for every actively enrolled student of the class without a row for
  the session. The clock reads inside the one synchronous \<^verbatim>\<open>map\<close> are one instant
  \<open>now\<close>.
\<close>

definition studentsNeedingRecords :: "world \<Rightarrow> string \<Rightarrow> string \<Rightarrow> string list" where
  "studentsNeedingRecords w sid c =
     (let enrolledStudents = map en_student_id (active_enrollments w c);
          existingStudentIds = set (map ar_student_id (records_of_session w sid))
      in filter (\<lambda>u. u \<notin> existingStudentIds) enrolledStudents)"

definition absentRecords :: "string \<Rightarrow> int \<Rightarrow> string list \<Rightarrow> new_attendance list" where
  "absentRecords sid now us =
     map (\<lambda>u. \<lparr> na_session_id = sid, na_student_id = u, na_scanned_at = Some now,
                 na_status = ''absent'', na_minutes_late = None,
                 na_device_fingerprint = None, na_ip_address = None \<rparr>) us"

definition reconciliation :: "string \<Rightarrow> string \<Rightarrow> int \<Rightarrow> world \<Rightarrow> db_error + world" where
  "reconciliation sid c now w =
     (let needing = studentsNeedingRecords w sid c
      in if length needing > 0 then insert_rows (absentRecords sid now needing) now w
         else Inr w)"

definition mark_completed :: "class_session \<Rightarrow> class_session" where
  "mark_completed s = s\<lparr> cs_status := ''completed'', cs_is_active := False, cs_qr_expires_at := None \<rparr>"

definition completion_events :: "string \<Rightarrow> event list" where
  "completion_events sid =
     [Emit Everyone ''session_status_update'' (Status_payload sid ''completed''),
      Emit Everyone ''session_completed'' (Session_payload sid)]"

subsection \<open>completeSessionAutomatically\<close>

text \<open>The result is the error thrown, if any, and the state left behind.\<close>

definition completeSessionAutomatically :: "env \<Rightarrow> string \<Rightarrow> int \<Rightarrow> world \<Rightarrow> db_error option \<times> world" where
  "completeSessionAutomatically e sid now w =
     (case session_with_status w sid ''active'' of
        None \<Rightarrow> (None, w)
      | Some session \<Rightarrow>
          let w1 = stopQRCodeRotation sid w
          in (case reconciliation sid (cs_class_instance_id session) now w1 of
                Inl err \<Rightarrow> (Some err, w1)
              | Inr w2 \<Rightarrow>
                  let w3 = update_session sid mark_completed w2
                  in (None, emit e (completion_events sid) w3)))"

text \<open>The callback \<^verbatim>\<open>activate\<close> hands to \<^verbatim>\<open>setTimeout\<close> for one hour later: it runs
  \<^verbatim>\<open>completeSessionAutomatically\<close> and logs an error it throws.\<close>

definition timeout_callback :: "env \<Rightarrow> string \<Rightarrow> int \<Rightarrow> world \<Rightarrow> world" where
  "timeout_callback e sid now w = snd (completeSessionAutomatically e sid now w)"

subsection \<open>POST /api/sessions/:sessionId/complete\<close>

definition complete :: "env \<Rightarrow> string \<Rightarrow> int \<Rightarrow> world \<Rightarrow> response \<times> world" where
  "complete e sid now w =
     (let w1 = stopQRCodeRotation sid w
      in (case class_sessions w1 sid of
            None \<Rightarrow> (Server_error Not_single, w1)
          | Some session \<Rightarrow>
              (case reconciliation sid (cs_class_instance_id session) now w1 of
                 Inl err \<Rightarrow> (Server_error err, w1)
               | Inr w2 \<Rightarrow>
                   (case class_sessions w2 sid of
                      None \<Rightarrow> (Server_error Not_single, w2)
                    | Some s \<Rightarrow>
                        let updatedSession = mark_completed s;
                            w3 = update_session sid mark_completed w2
                        in (Session_ok updatedSession None,
                            emit e (completion_events sid) w3)))))"

subsection \<open>POST /api/sessions/:sessionId/pause\<close>

definition pause :: "string \<Rightarrow> world \<Rightarrow> response \<times> world" where
  "pause sid w =
     (case session_with_status w sid ''active'' of
        None \<Rightarrow> (Failed 400 ''Session not found or not active'', w)
      | Some session \<Rightarrow>
          let w1 = stopQRCodeRotation sid w;
              updatedSession = session\<lparr> cs_status := ''paused'', cs_is_active := False,
                                        cs_qr_expires_at := None \<rparr>;
              w2 = update_session sid (\<lambda>s. updatedSession) w1
          in (Session_ok updatedSession None, w2))"

subsection \<open>POST /api/sessions/:sessionId/resume\<close>

definition resume :: "env \<Rightarrow> string \<Rightarrow> int \<Rightarrow> string \<Rightarrow> string \<Rightarrow> world \<Rightarrow> response \<times> world" where
  "resume e sid now nc sec w =
     (case session_with_status w sid ''paused'' of
        None \<Rightarrow> (Failed 400 ''Session not found or not paused'', w)
      | Some session \<Rightarrow>
          let qrData = generateSecureQR (hmac_of e) (QR_SECRET e) sid now nc sec;
              updatedSession = session\<lparr> cs_status := ''active'', cs_is_active := True,
                                        cs_qr_secret := Some (secret qrData),
                                        cs_qr_expires_at := Some (expires_at qrData) \<rparr>;
              w1 = update_session sid (\<lambda>s. updatedSession) w;
              w2 = startQRCodeRotation sid w1
          in (Session_ok updatedSession None, w2))"

subsection \<open>POST /api/sessions/:sessionId/cancel\<close>

definition cancel :: "string \<Rightarrow> string option \<Rightarrow> world \<Rightarrow> response \<times> world" where
  "cancel sid notes w =
     (let w1 = stopQRCodeRotation sid w
      in (case class_sessions w1 sid of
            None \<Rightarrow> (Server_error Not_single, w1)
          | Some s \<Rightarrow>
              let updatedSession = s\<lparr> cs_status := ''cancelled'', cs_is_active := False,
                                      cs_qr_expires_at := None, cs_notes := or_null notes \<rparr>;
                  w2 = update_session sid (\<lambda>s. updatedSession) w1
              in (Session_ok updatedSession None, w2)))"

subsection \<open>PUT /api/sessions/:sessionId\<close>

text \<open>The body of the request: a field that is \<open>None\<close> is absent. The handler skips a
  \<^verbatim>\<open>status\<close>, \<^verbatim>\<open>date\<close>, \<^verbatim>\<open>start_time\<close> or \<^verbatim>\<open>end_time\<close> that is falsy (the empty
  string); \<^verbatim>\<open>notes\<close> is written whenever it is not \<^verbatim>\<open>undefined\<close> (\<open>Some None\<close> is an
  explicit \<^verbatim>\<open>null\<close>).\<close>

record session_update =
  su_status :: "string option"
  su_notes :: "string option option"
  su_date :: "string option"
  su_start_time :: "string option"
  su_end_time :: "string option"

definition given :: "string option \<Rightarrow> string \<Rightarrow> string" where
  "given field old = (case field of None \<Rightarrow> old | Some v \<Rightarrow> if v = [] then old else v)"

definition updateData :: "session_update \<Rightarrow> class_session \<Rightarrow> class_session" where
  "updateData b s =
     s\<lparr> cs_status := given (su_status b) (cs_status s),
        cs_notes := (case su_notes b of None \<Rightarrow> cs_notes s | Some n \<Rightarrow> n),
        cs_date := given (su_date b) (cs_date s),
        cs_start_time := given (su_start_time b) (cs_start_time s),
        cs_end_time := given (su_end_time b) (cs_end_time s) \<rparr>"

definition put_session :: "string \<Rightarrow> session_update \<Rightarrow> world \<Rightarrow> response \<times> world" where
  "put_session sid b w =
     (case class_sessions w sid of
        None \<Rightarrow> (Server_error Not_single, w)
      | Some s \<Rightarrow> (Session_ok (updateData b s) None, update_session sid (updateData b) w))"

section \<open>Recording attendance\<close>

subsection \<open>POST /api/attendance/scan (backend/attendance-api.js)\<close>

text \<open>
  The request: \<^verbatim>\<open>qrData\<close> is \<open>None\<close> when absent, \<open>Some None\<close> when it is neither an
  object nor a string that parses to one, and \<open>Some (Some q)\<close> otherwise;
  \<^verbatim>\<open>studentId\<close> is empty when absent. \<open>sr_user_agent\<close> is the \<^verbatim>\<open>user-agent\<close> header
  and \<open>sr_ip\<close> is \<^verbatim>\<open>req.ip || req.connection.remoteAddress\<close>.
\<close>

record scan_request =
  sr_qrData :: "qr_data option option"
  sr_studentId :: string
  sr_user_agent :: "string option"
  sr_ip :: "string option"

text \<open>What the checks of lines 24--127 leave for the rest of the handler: the session
  id of the token, the session row as it was read, and the student's \<^verbatim>\<open>user_id\<close>.\<close>

record scan_ctx =
  sx_sessionId :: string
  sx_session :: class_session
  sx_user_id :: string

definition existingAttendance :: "world \<Rightarrow> string \<Rightarrow> string \<Rightarrow> attendance_record option" where
  "existingAttendance w sid uid =
     single (filter (\<lambda>r. ar_session_id r = sid \<and> ar_student_id r = uid) (attendance_records w))"

text \<open>Lines 24--127: the checks, up to and with the look-up of an existing record.
  \<open>now\<close> and \<open>currentTime\<close> are the two clock reads of \<^verbatim>\<open>validateQR\<close>.\<close>

definition scan_checks :: "env \<Rightarrow> scan_request \<Rightarrow> int \<Rightarrow> int \<Rightarrow> world \<Rightarrow> response + scan_ctx" where
  "scan_checks e rq now currentTime w =
     (case sr_qrData rq of
        None \<Rightarrow> Inl (Failed 400 ''QR data and student ID are required'')
      | Some parsedQRData \<Rightarrow>
          if sr_studentId rq = [] then Inl (Failed 400 ''QR data and student ID are required'')
          else if parsedQRData = None then Inl (Failed 400 ''Invalid QR code format'')
          else (case validateQR (hmac_of e) (QR_SECRET e) now currentTime parsedQRData of
              Invalid err \<Rightarrow> Inl (Failed 400 (if err = [] then ''Invalid QR code'' else err))
            | Valid sid ts \<Rightarrow>
                (case session_with_status w sid ''active'' of
                   None \<Rightarrow> Inl (Failed 404 ''Session not found or not active'')
                 | Some session \<Rightarrow>
                     (case single (filter (\<lambda>st. st_student_id st = sr_studentId rq) (students w)) of
                        None \<Rightarrow> Inl (Failed 404 ''Student record not found'')
                      | Some studentRecord \<Rightarrow>
                          (case single (filter (\<lambda>en. en_student_id en = st_user_id studentRecord
                                           \<and> en_class_instance_id en = cs_class_instance_id session)
                                         (enrollments w)) of
                             None \<Rightarrow> Inl (Failed 403 ''You are not enrolled in this class'')
                           | Some enrollment \<Rightarrow>
                               (case existingAttendance w sid (st_user_id studentRecord) of
                                  Some existing \<Rightarrow>
                                    Inl (Already_recorded (ar_id existing) (ar_scanned_at existing)
                                           (ar_status existing))
                                | None \<Rightarrow>
                                    Inr \<lparr> sx_sessionId = sid, sx_session = session,
                                          sx_user_id = st_user_id studentRecord \<rparr>))))))"

text \<open>Lines 129--135: lateness against the scheduled start of the class.\<close>

definition minutesLate :: "env \<Rightarrow> class_session \<Rightarrow> int \<Rightarrow> int" where
  "minutesLate e session currentTime =
     (let sessionStartTime = Date_parse e (cs_date session @ ''T'' @ cs_start_time session)
      in (currentTime - sessionStartTime) div (1000 * 60))"

definition isLate :: "int \<Rightarrow> bool" where
  "isLate m = (m > 5)"

definition attended :: "attendance_record \<Rightarrow> bool" where
  "attended a = (ar_status a \<in> set [''present'', ''late'', ''excused''])"

text \<open>Lines 129--260: the insert and what follows it. \<open>currentTime\<close> is the clock read of
  line 132.\<close>

definition scan_record :: "env \<Rightarrow> scan_request \<Rightarrow> int \<Rightarrow> scan_ctx \<Rightarrow> world \<Rightarrow> response \<times> world" where
  "scan_record e rq currentTime c w =
     (let sid = sx_sessionId c; session = sx_session c;
          m = minutesLate e session currentTime;
          late = isLate m;
          row = \<lparr> na_session_id = sid, na_student_id = sx_user_id c,
                  na_scanned_at = Some currentTime,
                  na_status = (if late then ''late'' else ''present''),
                  na_minutes_late = Some (if late then m else 0),
                  na_device_fingerprint =
                    (case sr_user_agent rq of
                       None \<Rightarrow> Some ''unknown''
                     | Some ua \<Rightarrow> if ua = [] then Some ''unknown'' else Some ua),
                  na_ip_address = sr_ip rq \<rparr>
      in (case insert_row row currentTime w of
            Inl recordError \<Rightarrow> (Failed 500 ''Failed to record attendance'', w)
          | Inr (attendanceRecord, w1) \<Rightarrow>
              let w2 = update_session sid
                         (\<lambda>s. s\<lparr>cs_attendance_count := cs_attendance_count session + 1\<rparr>) w1;
                  attendanceRecords = records_of_session w2 sid;
                  attendedCount = length (filter attended attendanceRecords);
                  totalStudents = length attendanceRecords;
                  w3 = emit e
                         [Emit (Session_room sid) ''attendance_update''
                            (Attendance_payload sid (sr_studentId rq) (ar_status attendanceRecord)
                               (ar_scanned_at attendanceRecord) attendedCount totalStudents),
                          Emit (Professor_room (cs_class_instance_id session))
                            ''dashboard-attendance-update''
                            (Dashboard_payload sid attendedCount totalStudents)] w2;
                  w4 = w3\<lparr>notifications := notifications w3 @
                         [\<lparr> nt_user_id = sx_user_id c, nt_type = ''attendance_recorded'',
                            nt_title = ''Attendance recorded successfully!'',
                            nt_session_id = Some sid \<rparr>]\<rparr>
              in (Scan_ok (ar_id attendanceRecord) (ar_scanned_at attendanceRecord)
                    (ar_status attendanceRecord) m, w4)))"

text \<open>The whole handler, when no other request runs between its checks and its
  insert.\<close>

definition scan :: "env \<Rightarrow> scan_request \<Rightarrow> int \<Rightarrow> int \<Rightarrow> int \<Rightarrow> world \<Rightarrow> response \<times> world" where
  "scan e rq now currentTime t w =
     (case scan_checks e rq now currentTime w of
        Inl r \<Rightarrow> (r, w)
      | Inr c \<Rightarrow> scan_record e rq t c w)"

subsection \<open>POST /api/sessions/:sessionId/attendance\<close>

text \<open>The body of the request, without \<^verbatim>\<open>qr_secret_used\<close> (a column left out of
  the table above).\<close>

record attendance_body =
  ab_student_id :: string
  ab_device_fingerprint :: "string option"
  ab_ip_address :: "string option"

definition record_attendance :: "env \<Rightarrow> string \<Rightarrow> attendance_body \<Rightarrow> int \<Rightarrow> world \<Rightarrow> response \<times> world" where
  "record_attendance e sid b now w =
     (case class_sessions w sid of
        None \<Rightarrow> (Failed 400 ''Session is not active or cancelled'', w)
      | Some session \<Rightarrow>
          if \<not> (cs_is_active session \<and> cs_status session \<noteq> ''cancelled'')
          then (Failed 400 ''Session is not active or cancelled'', w)
          else (case single (filter (\<lambda>en. en_student_id en = ab_student_id b
                                \<and> en_class_instance_id en = cs_class_instance_id session
                                \<and> en_status en = ''active'') (enrollments w)) of
              None \<Rightarrow> (Failed 400 ''Student not enrolled in this class'', w)
            | Some enrollment \<Rightarrow>
                let m = max 0 (minutesLate e session now);
                    st = (if m > 5 then ''late'' else ''present'');
                    row = \<lparr> na_session_id = sid, na_student_id = ab_student_id b,
                            na_scanned_at = None, na_status = st, na_minutes_late = Some m,
                            na_device_fingerprint = ab_device_fingerprint b,
                            na_ip_address = ab_ip_address b \<rparr>
                in (case insert_row row now w of
                      Inl err \<Rightarrow> (Server_error err, w)
                    | Inr (dat, w1) \<Rightarrow> (Attendance_ok dat, w1))))"

section \<open>Requests in flight\<close>

text \<open>
  A handler gives way to other requests at each \<^verbatim>\<open>await\<close>. For the scan endpoint the
  only write to \<^verbatim>\<open>attendance_records\<close> is the insert of line 137, after the
  look-up of line 110: a request in flight has either not run its checks yet, or has
  passed them and waits to insert, or has answered. A schedule names, step by step,
  the request that runs next.
\<close>

datatype task =
    Arrived scan_request int int int
  | Checked scan_request int scan_ctx
  | Answered response

definition step_task :: "env \<Rightarrow> task \<Rightarrow> world \<Rightarrow> task \<times> world" where
  "step_task e tk w =
     (case tk of
        Arrived rq now currentTime t \<Rightarrow>
          (case scan_checks e rq now currentTime w of
             Inl r \<Rightarrow> (Answered r, w)
           | Inr c \<Rightarrow> (Checked rq t c, w))
      | Checked rq t c \<Rightarrow> (let (r, w') = scan_record e rq t c w in (Answered r, w'))
      | Answered r \<Rightarrow> (Answered r, w))"

fun run :: "env \<Rightarrow> nat list \<Rightarrow> task list \<times> world \<Rightarrow> task list \<times> world" where
  "run e [] (tasks, w) = (tasks, w)"
| "run e (i # sched) (tasks, w) =
     (if i < length tasks
      then (let (tk, w') = step_task e (tasks ! i) w in run e sched (tasks[i := tk], w'))
      else run e sched (tasks, w))"

text \<open>The constraint of the table, as a property of its rows.\<close>

definition unique_attendance :: "world \<Rightarrow> bool" where
  "unique_attendance w = distinct (map ar_key (attendance_records w))"

text \<open>What a record shows of itself, apart from its id and the fingerprint columns.\<close>

definition ar_view :: "attendance_record \<Rightarrow> string \<times> string \<times> string \<times> int \<times> int" where
  "ar_view r = (ar_session_id r, ar_student_id r, ar_status r, ar_minutes_late r, ar_scanned_at r)"

section \<open>Example data\<close>

text \<open>
  A class \<open>c1\<close> with one session \<open>s1\<close>, scheduled for 2024-01-08 at 10:00:00 (the instant
  1704708000000), and two students, both actively enrolled. The HMAC of the examples is
  concatenation of key and data, and \<open>Date_parse\<close> knows the one date of the session.
\<close>

definition example_env :: env where
  "example_env =
     \<lparr> hmac_of = (\<lambda>k d. k @ d), QR_SECRET = ''fsas_qr_secret_key_2024_secure'',
       Date_parse = (\<lambda>s. if s = ''2024-01-08T10:00:00'' then 1704708000000 else 0),
       io = True \<rparr>"

definition example_session :: class_session where
  "example_session =
     \<lparr> cs_class_instance_id = ''c1'', cs_date = ''2024-01-08'', cs_start_time = ''10:00:00'',
       cs_end_time = ''10:50:00'', cs_status = ''scheduled'', cs_notes = None,
       cs_qr_secret = None, cs_qr_expires_at = None, cs_is_active = False,
       cs_attendance_count = 0 \<rparr>"

definition example_world :: world where
  "example_world =
     \<lparr> class_sessions = [''s1'' \<mapsto> example_session],
       students = [\<lparr> st_user_id = ''u1'', st_student_id = ''5002378'' \<rparr>,
                   \<lparr> st_user_id = ''u2'', st_student_id = ''5002379'' \<rparr>],
       enrollments = [\<lparr> en_student_id = ''u1'', en_class_instance_id = ''c1'', en_status = ''active'' \<rparr>,
                      \<lparr> en_student_id = ''u2'', en_class_instance_id = ''c1'', en_status = ''active'' \<rparr>],
       attendance_records = [], notifications = [], next_id = 0,
       activeRotations = Map.empty, intervals = [], next_handle = 0, timeouts = [],
       emitted = [] \<rparr>"

text \<open>The session activated at 10:00:00: its row, and the state.\<close>

definition example_active_session :: class_session where
  "example_active_session =
     example_session \<lparr> cs_status := ''active'', cs_qr_secret := Some ''b1'',
            cs_qr_expires_at := Some 1704708030000, cs_is_active := True \<rparr>"

definition example_active :: world where
  "example_active = snd (activate example_env ''s1'' None 1704708000000 ''a1'' ''b1'' example_world)"

text \<open>The token a rotation issues at \<open>t\<close>, and the scan request of the first student
  with it.\<close>

definition example_token :: "int \<Rightarrow> qr_data" where
  "example_token t =
     qr_data_of (generateSecureQR (hmac_of example_env) (QR_SECRET example_env) ''s1'' t ''a2'' ''b2'')"

definition example_request :: "int \<Rightarrow> scan_request" where
  "example_request t =
     \<lparr> sr_qrData = Some (Some (example_token t)), sr_studentId = ''5002378'',
       sr_user_agent = Some ''Mozilla/5.0'', sr_ip = Some ''10.0.0.7'' \<rparr>"

text \<open>The same request from a client whose \<^verbatim>\<open>User-Agent\<close> header has 256
  characters.\<close>

definition example_long_request :: "int \<Rightarrow> scan_request" where
  "example_long_request t =
     (example_request t) \<lparr> sr_user_agent := Some (replicate 256 (CHR ''a'')) \<rparr>"

text \<open>The state after the first student's scan at \<open>t\<close>, with the token issued at \<open>t\<close>.\<close>

definition example_scanned :: "int \<Rightarrow> world" where
  "example_scanned t = snd (scan example_env (example_request t) t t t example_active)"

text \<open>A third student whose enrollment in the class is \<^verbatim>\<open>dropped\<close>: the session
  activated at 10:00:00 with that student in the tables, that student's scan request,
  and the state after the scan at \<open>t\<close>.\<close>

definition example_world3 :: world where
  "example_world3 =
     example_world
       \<lparr> students := students example_world @ [\<lparr> st_user_id = ''u3'', st_student_id = ''5002380'' \<rparr>],
         enrollments := enrollments example_world @
           [\<lparr> en_student_id = ''u3'', en_class_instance_id = ''c1'', en_status = ''dropped'' \<rparr>] \<rparr>"

definition example_active3 :: world where
  "example_active3 = snd (activate example_env ''s1'' None 1704708000000 ''a1'' ''b1'' example_world3)"

definition example_request3 :: "int \<Rightarrow> scan_request" where
  "example_request3 t = (example_request t) \<lparr> sr_studentId := ''5002380'' \<rparr>"

definition example_scanned3 :: "int \<Rightarrow> world" where
  "example_scanned3 t = snd (scan example_env (example_request3 t) t t t example_active3)"

text \<open>The activated session, paused.\<close>

definition example_paused :: world where
  "example_paused = snd (pause ''s1'' example_active)"

text \<open>The invariant of a session row: \<^verbatim>\<open>is_active\<close> exactly when the status is
  \<^verbatim>\<open>active\<close>, and no expiry unless the status is \<^verbatim>\<open>active\<close>.\<close>

definition session_invariant :: "class_session \<Rightarrow> bool" where
  "session_invariant s =
     ((cs_is_active s = (cs_status s = ''active''))
      \<and> (cs_qr_expires_at s = None \<or> cs_status s = ''active''))"

text \<open>Every row of \<^verbatim>\<open>class_sessions\<close> satisfies it.\<close>

definition world_invariant :: "world \<Rightarrow> bool" where
  "world_invariant w = (\<forall>sid s. class_sessions w sid = Some s \<longrightarrow> session_invariant s)"

text \<open>The scheduled session cancelled, and the bodies of two PUT requests that write
  the status alone.\<close>

definition example_cancelled :: world where
  "example_cancelled = snd (cancel ''s1'' None example_world)"

definition status_only :: "string \<Rightarrow> session_update" where
  "status_only st =
     \<lparr> su_status = Some st, su_notes = None, su_date = None, su_start_time = None,
       su_end_time = None \<rparr>"

text \<open>The activated session set back to \<^verbatim>\<open>scheduled\<close> through the PUT endpoint and
  activated again at 10:01:00.\<close>

definition example_reactivated :: world where
  "example_reactivated =
     snd (activate example_env ''s1'' None 1704708060000 ''a3'' ''b3''
            (snd (put_session ''s1'' (status_only ''scheduled'') example_active)))"

section \<open>Properties of the token codec\<close>

lemma show_int_eval:
  "show_int 1000 = ''1000''" "show_int 30000 = ''30000''"
  by (simp_all add: show_int_def show_nat.simps digit_char_def)

text \<open>
  C3. A token issued by \<^verbatim>\<open>generateSecureQR\<close> at \<open>t0\<close> (a positive clock reading, a
  non-empty session id and nonce, a non-empty digest) is accepted by \<^verbatim>\<open>validateQR\<close>
  exactly while the verification time is at most \<open>t0 + 30000\<close> ms. The two clock reads of
  \<^verbatim>\<open>validateQR\<close> are \<open>now \<le> currentTime\<close>; a single verification time \<open>t\<close> is
  \<open>now = currentTime = t\<close>. Whatever is written into \<^verbatim>\<open>expiresAt\<close> afterwards, the
  token is rejected once \<open>currentTime - t0 > 30000\<close>: the age check does not read
  \<^verbatim>\<open>expiresAt\<close>.
\<close>

theorem validateQR_validity_window:
  assumes "0 < t0" and "sid \<noteq> []" and "nc \<noteq> []"
      and "hmac key (signed_data sid t0 nc) \<noteq> []"
      and "now \<le> currentTime"
  shows "let tok = qr_data_of (generateSecureQR hmac key sid t0 nc sec) in
           (currentTime \<le> t0 + 30000 \<longrightarrow>
              validateQR hmac key now currentTime (Some tok) = Valid sid t0)
         \<and> (t0 + 30000 < now \<longrightarrow>
              \<not> isValid (validateQR hmac key now currentTime (Some tok)))
         \<and> (isValid (validateQR hmac key now currentTime (Some tok))
              \<longleftrightarrow> currentTime \<le> t0 + 30000)
         \<and> (30000 < currentTime - t0 \<longrightarrow>
              \<not> isValid (validateQR hmac key now currentTime (Some (tok\<lparr>expiresAt := e\<rparr>))))"
  using assms
  by (auto simp: validateQR.simps generateSecureQR_def QR_EXPIRY_SECONDS_def Let_def
           split: date_field.splits)

theorem validateQR_validity_window_witness:
  "validateQR (\<lambda>k d. k @ d) ''k'' 31000 31000
      (Some (qr_data_of (generateSecureQR (\<lambda>k d. k @ d) ''k'' ''s1'' 1000 ''n'' ''x''))) = Valid ''s1'' 1000
   \<and> \<not> isValid (validateQR (\<lambda>k d. k @ d) ''k'' 31001 31001
      (Some (qr_data_of (generateSecureQR (\<lambda>k d. k @ d) ''k'' ''s1'' 1000 ''n'' ''x''))))
   \<and> \<not> isValid (validateQR (\<lambda>k d. k @ d) ''k'' 31001 31001
      (Some ((qr_data_of (generateSecureQR (\<lambda>k d. k @ d) ''k'' ''s1'' 1000 ''n'' ''x''))
               \<lparr>expiresAt := Instant 99000\<rparr>)))"
proof -
  have pos: "(0::int) < 1000" and sid: "''s1'' \<noteq> []" and nc: "''n'' \<noteq> []"
    and dig: "(\<lambda>k d. k @ d) ''k'' (signed_data ''s1'' 1000 ''n'') \<noteq> []"
    by simp_all
  have le1: "(31000::int) \<le> 31000" and le2: "(31001::int) \<le> 31001" by simp_all
  note a = validateQR_validity_window
      [where hmac = "\<lambda>k d. k @ d" and key = "''k''" and sid = "''s1''" and ?t0.0 = 1000
         and nc = "''n''" and sec = "''x''" and e = "Instant 99000"
         and now = 31000 and currentTime = 31000]
  note b = validateQR_validity_window
      [where hmac = "\<lambda>k d. k @ d" and key = "''k''" and sid = "''s1''" and ?t0.0 = 1000
         and nc = "''n''" and sec = "''x''" and e = "Instant 99000"
         and now = 31001 and currentTime = 31001]
  from a pos sid nc dig le1 have 1: "validateQR (\<lambda>k d. k @ d) ''k'' 31000 31000
      (Some (qr_data_of (generateSecureQR (\<lambda>k d. k @ d) ''k'' ''s1'' 1000 ''n'' ''x''))) = Valid ''s1'' 1000"
    by (simp add: Let_def)
  from b pos sid nc dig le2 have 2: "\<not> isValid (validateQR (\<lambda>k d. k @ d) ''k'' 31001 31001
      (Some (qr_data_of (generateSecureQR (\<lambda>k d. k @ d) ''k'' ''s1'' 1000 ''n'' ''x''))))"
    by (simp add: Let_def)
  from b pos sid nc dig le2 have 3: "\<not> isValid (validateQR (\<lambda>k d. k @ d) ''k'' 31001 31001
      (Some ((qr_data_of (generateSecureQR (\<lambda>k d. k @ d) ''k'' ''s1'' 1000 ''n'' ''x''))
               \<lparr>expiresAt := Instant 99000\<rparr>)))"
    by (simp add: Let_def)
  from 1 2 3 show ?thesis by blast
qed

text \<open>
  C10. \<^verbatim>\<open>generateRotatingQR\<close> is a function of the session id and of the 30-second
  bucket \<open>now div 30000\<close> alone: two calls in one bucket return the same object, and
  \<^verbatim>\<open>expires_at\<close> is the end of the bucket, which is after the call, at most 30 seconds
  after it, and exactly 30 seconds after it only for a call on the bucket's first
  millisecond.
\<close>

theorem generateRotatingQR_bucket:
  assumes "now div 30000 = now' div 30000"
  shows "generateRotatingQR hmac key sid now = generateRotatingQR hmac key sid now'
       \<and> rq_expires_at (generateRotatingQR hmac key sid now) = (now div 30000 + 1) * 30000
       \<and> now < rq_expires_at (generateRotatingQR hmac key sid now)
       \<and> rq_expires_at (generateRotatingQR hmac key sid now) \<le> now + 30000
       \<and> (rq_expires_at (generateRotatingQR hmac key sid now) = now + 30000
            \<longleftrightarrow> now mod 30000 = 0)"
proof -
  have same: "generateRotatingQR hmac key sid now = generateRotatingQR hmac key sid now'"
    using assms by (simp add: generateRotatingQR_def Let_def)
  have ex: "rq_expires_at (generateRotatingQR hmac key sid now) = now div 30000 * 30000 + 30000"
    by (simp add: generateRotatingQR_def Let_def)
  have m: "now div 30000 * 30000 = now - now mod 30000"
    using div_mult_mod_eq [of now 30000] by linarith
  have r: "0 \<le> now mod 30000" "now mod 30000 < 30000" by simp_all
  have e1: "rq_expires_at (generateRotatingQR hmac key sid now) = (now div 30000 + 1) * 30000"
    unfolding ex by (simp only: distrib_right mult_1)
  have e2: "now < rq_expires_at (generateRotatingQR hmac key sid now)"
    unfolding ex using m r by linarith
  have e3: "rq_expires_at (generateRotatingQR hmac key sid now) \<le> now + 30000"
    unfolding ex using m r by linarith
  have e4: "(rq_expires_at (generateRotatingQR hmac key sid now) = now + 30000)
             \<longleftrightarrow> now mod 30000 = 0"
    unfolding ex using m by linarith
  show ?thesis
    by (intro conjI) (rule same, rule e1, rule e2, rule e3, rule e4)
qed

theorem generateRotatingQR_bucket_witness:
  "generateRotatingQR (\<lambda>k d. k @ d) ''k'' ''s1'' 30000 = generateRotatingQR (\<lambda>k d. k @ d) ''k'' ''s1'' 59999
   \<and> rq_expires_at (generateRotatingQR (\<lambda>k d. k @ d) ''k'' ''s1'' 30000) = 60000
   \<and> rq_data (generateRotatingQR (\<lambda>k d. k @ d) ''k'' ''s1'' 59999) = ''s1:30000''"
proof -
  have b: "(30000::int) div 30000 = 59999 div 30000" by simp
  note t = generateRotatingQR_bucket
     [where now = 30000 and now' = 59999 and hmac = "\<lambda>k d. k @ d" and key = "''k''" and sid = "''s1''", OF b]
  have d: "rq_data (generateRotatingQR (\<lambda>k d. k @ d) ''k'' ''s1'' 59999) = ''s1:30000''"
    by (simp add: generateRotatingQR_def Let_def show_int_eval)
  have c: "((30000::int) div 30000 + 1) * 30000 = 60000" by simp
  from t have t1: "generateRotatingQR (\<lambda>k d. k @ d) ''k'' ''s1'' 30000 = generateRotatingQR (\<lambda>k d. k @ d) ''k'' ''s1'' 59999"
    by (rule conjunct1)
  from t have t2: "rq_expires_at (generateRotatingQR (\<lambda>k d. k @ d) ''k'' ''s1'' 30000) = (30000 div 30000 + 1) * 30000"
    by (elim conjE)
  show ?thesis
    by (intro conjI) (rule t1, simp only: t2 c, rule d)
qed

section \<open>Frame lemmas\<close>

lemma update_session_fields [simp]:
  "attendance_records (update_session sid f w) = attendance_records w"
  "enrollments (update_session sid f w) = enrollments w"
  "students (update_session sid f w) = students w"
  "notifications (update_session sid f w) = notifications w"
  "next_id (update_session sid f w) = next_id w"
  "activeRotations (update_session sid f w) = activeRotations w"
  "intervals (update_session sid f w) = intervals w"
  "next_handle (update_session sid f w) = next_handle w"
  "timeouts (update_session sid f w) = timeouts w"
  "emitted (update_session sid f w) = emitted w"
  by (simp_all add: update_session_def split: option.splits)

lemma update_session_sessions:
  "class_sessions (update_session sid f w) =
     (case class_sessions w sid of None \<Rightarrow> class_sessions w
      | Some s \<Rightarrow> (class_sessions w)(sid \<mapsto> f s))"
  by (simp add: update_session_def split: option.splits)

lemma emit_fields [simp]:
  "attendance_records (emit e evs w) = attendance_records w"
  "class_sessions (emit e evs w) = class_sessions w"
  "enrollments (emit e evs w) = enrollments w"
  "students (emit e evs w) = students w"
  "notifications (emit e evs w) = notifications w"
  "next_id (emit e evs w) = next_id w"
  "activeRotations (emit e evs w) = activeRotations w"
  "intervals (emit e evs w) = intervals w"
  "next_handle (emit e evs w) = next_handle w"
  "timeouts (emit e evs w) = timeouts w"
  by (simp_all add: emit_def)

lemma stop_fields [simp]:
  "attendance_records (stopQRCodeRotation sid w) = attendance_records w"
  "class_sessions (stopQRCodeRotation sid w) = class_sessions w"
  "enrollments (stopQRCodeRotation sid w) = enrollments w"
  "students (stopQRCodeRotation sid w) = students w"
  "notifications (stopQRCodeRotation sid w) = notifications w"
  "next_id (stopQRCodeRotation sid w) = next_id w"
  "timeouts (stopQRCodeRotation sid w) = timeouts w"
  "emitted (stopQRCodeRotation sid w) = emitted w"
  by (simp_all add: stopQRCodeRotation_def split: option.splits)

lemma start_fields [simp]:
  "attendance_records (startQRCodeRotation sid w) = attendance_records w"
  "class_sessions (startQRCodeRotation sid w) = class_sessions w"
  "enrollments (startQRCodeRotation sid w) = enrollments w"
  "students (startQRCodeRotation sid w) = students w"
  "notifications (startQRCodeRotation sid w) = notifications w"
  "next_id (startQRCodeRotation sid w) = next_id w"
  "timeouts (startQRCodeRotation sid w) = timeouts w"
  "emitted (startQRCodeRotation sid w) = emitted w"
  by (simp_all add: startQRCodeRotation_def Let_def)

section \<open>The uniqueness constraint\<close>

lemma fingerprint_fits_examples [simp]:
  "fingerprint_fits None"
  "fingerprint_fits (Some ''unknown'')"
  "fingerprint_fits (Some ''Mozilla/5.0'')"
  "stored_fingerprint None = None"
  "stored_fingerprint (Some ''unknown'') = Some ''unknown''"
  "stored_fingerprint (Some ''Mozilla/5.0'') = Some ''Mozilla/5.0''"
  by (simp_all add: fingerprint_fits_def stored_fingerprint_def)

lemma fingerprint_fits_short:
  "length x \<le> 255 \<Longrightarrow> fingerprint_fits (Some x)"
  by (simp add: fingerprint_fits_def)

lemma insert_row_Inr:
  assumes "insert_row n now w = Inr (r, w')"
  shows "attendance_records w' = attendance_records w @ [r]"
    and "ar_key r = (na_session_id n, na_student_id n)"
    and "ar_key r \<notin> set (map ar_key (attendance_records w))"
    and "ar_id r = next_id w" and "ar_session_id r = na_session_id n"
    and "ar_student_id r = na_student_id n" and "ar_status r = na_status n"
    and "ar_scanned_at r = (case na_scanned_at n of None \<Rightarrow> now | Some t \<Rightarrow> t)"
    and "ar_minutes_late r = (case na_minutes_late n of None \<Rightarrow> 0 | Some m \<Rightarrow> m)"
    and "enrollments w' = enrollments w" and "students w' = students w"
  using assms
  by (auto simp: insert_row_def Let_def ar_key_def update_session_attendance_count_def
           split: if_splits)

lemma insert_row_unique:
  assumes "insert_row n now w = Inr (r, w')" and "unique_attendance w"
  shows "unique_attendance w'"
  using insert_row_Inr(1,3) [OF assms(1)] assms(2)
  by (simp add: unique_attendance_def)

lemma insert_row_refused:
  "(na_session_id n, na_student_id n) \<in> set (map ar_key (attendance_records w))
   \<Longrightarrow> insert_row n now w =
         Inl (if fingerprint_fits (na_device_fingerprint n) then Unique_violation
              else Value_too_long)"
  by (simp add: insert_row_def)

lemma insert_row_too_long:
  "\<not> fingerprint_fits (na_device_fingerprint n) \<Longrightarrow> insert_row n now w = Inl Value_too_long"
  by (simp add: insert_row_def)

lemma insert_row_accepted:
  assumes "fingerprint_fits (na_device_fingerprint n)"
    and "(na_session_id n, na_student_id n) \<notin> set (map ar_key (attendance_records w))"
  shows "\<exists>r w'. insert_row n now w = Inr (r, w')"
  using assms by (simp add: insert_row_def Let_def)

lemma insert_rows_unique:
  "insert_rows ns now w = Inr w' \<Longrightarrow> unique_attendance w \<Longrightarrow> unique_attendance w'"
proof (induction ns arbitrary: w)
  case Nil
  then show ?case by simp
next
  case (Cons n ns)
  from Cons.prems(1) obtain r w1 where 1: "insert_row n now w = Inr (r, w1)"
    and 2: "insert_rows ns now w1 = Inr w'"
    by (auto split: sum.splits)
  from insert_row_unique [OF 1 Cons.prems(2)] Cons.IH [OF 2] show ?case by simp
qed

lemma scan_record_unique:
  assumes "unique_attendance w"
  shows "unique_attendance (snd (scan_record e rq t c w))"
proof (cases "insert_row \<lparr> na_session_id = sx_sessionId c, na_student_id = sx_user_id c,
                  na_scanned_at = Some t,
                  na_status = (if isLate (minutesLate e (sx_session c) t) then ''late'' else ''present''),
                  na_minutes_late = Some (if isLate (minutesLate e (sx_session c) t) then minutesLate e (sx_session c) t else 0),
                  na_device_fingerprint =
                    (case sr_user_agent rq of
                       None \<Rightarrow> Some ''unknown''
                     | Some ua \<Rightarrow> if ua = [] then Some ''unknown'' else Some ua),
                  na_ip_address = sr_ip rq \<rparr> t w")
  case (Inl a)
  then show ?thesis using assms by (simp add: scan_record_def Let_def)
next
  case (Inr b)
  obtain r w1 where b: "b = (r, w1)" by (cases b)
  from insert_row_unique [OF Inr [unfolded b] assms]
  have "unique_attendance w1" .
  then show ?thesis using Inr b
    by (simp add: scan_record_def Let_def unique_attendance_def)
qed

lemma step_task_unique:
  assumes "unique_attendance w"
  shows "unique_attendance (snd (step_task e tk w))"
proof (cases tk)
  case (Arrived rq now currentTime t)
  then show ?thesis using assms by (simp add: step_task_def split: sum.splits)
next
  case (Checked rq t c)
  then show ?thesis using scan_record_unique [OF assms, of e rq t c]
    by (auto simp: step_task_def split: prod.splits)
next
  case (Answered r)
  then show ?thesis using assms by (simp add: step_task_def)
qed

lemma run_unique:
  "unique_attendance w \<Longrightarrow> unique_attendance (snd (run e sched (tasks, w)))"
proof (induction sched arbitrary: tasks w)
  case Nil
  then show ?case by simp
next
  case (Cons i sched)
  show ?case
  proof (cases "i < length tasks")
    case True
    obtain tk w' where st: "step_task e (tasks ! i) w = (tk, w')" by (cases "step_task e (tasks ! i) w")
    have "unique_attendance w'" using step_task_unique [OF Cons.prems, of e "tasks ! i"] st by simp
    from Cons.IH [OF this] show ?thesis using True st by simp
  next
    case False
    then show ?thesis using Cons.IH [OF Cons.prems] by simp
  qed
qed

lemma unique_at_most_one:
  "distinct (map ar_key rs) \<Longrightarrow>
   length (filter (\<lambda>r. ar_session_id r = S \<and> ar_student_id r = s) rs) \<le> 1"
proof (induction rs)
  case Nil
  then show ?case by simp
next
  case (Cons a rs)
  show ?case
  proof (cases "ar_session_id a = S \<and> ar_student_id a = s")
    case True
    then have "ar_key a = (S, s)" by (simp add: ar_key_def)
    with Cons.prems have "(S, s) \<notin> ar_key ` set rs" by simp
    then have "\<forall>x\<in>set rs. ar_key x \<noteq> (S, s)" by (metis imageI)
    then have "filter (\<lambda>r. ar_session_id r = S \<and> ar_student_id r = s) rs = []"
      by (auto simp: filter_empty_conv ar_key_def)
    with True show ?thesis by simp
  next
    case False
    then show ?thesis using Cons by auto
  qed
qed

lemma filter_key_unique:
  "distinct (map ar_key rs) \<Longrightarrow> r \<in> set rs \<Longrightarrow>
   filter (\<lambda>x. ar_session_id x = ar_session_id r \<and> ar_student_id x = ar_student_id r) rs = [r]"
proof (induction rs)
  case Nil
  then show ?case by simp
next
  case (Cons a rs)
  show ?case
  proof (cases "a = r")
    case True
    have "ar_key r \<notin> ar_key ` set rs" using Cons.prems True by simp
    then have "\<forall>x\<in>set rs. ar_key x \<noteq> ar_key r" by (metis imageI)
    then have "filter (\<lambda>x. ar_session_id x = ar_session_id r \<and> ar_student_id x = ar_student_id r) rs = []"
      by (auto simp: filter_empty_conv ar_key_def)
    with True show ?thesis by simp
  next
    case False
    then have rin: "r \<in> set rs" using Cons.prems by simp
    then have "ar_key a \<noteq> ar_key r" using Cons.prems by force
    then have "\<not> (ar_session_id a = ar_session_id r \<and> ar_student_id a = ar_student_id r)"
      by (auto simp: ar_key_def)
    moreover have "filter (\<lambda>x. ar_session_id x = ar_session_id r \<and> ar_student_id x = ar_student_id r) rs = [r]"
      using Cons.IH Cons.prems rin by simp
    ultimately show ?thesis by simp
  qed
qed

lemma existingAttendance_found:
  assumes "unique_attendance w" and "r \<in> set (attendance_records w)"
      and "ar_session_id r = sid" and "ar_student_id r = uid"
  shows "existingAttendance w sid uid = Some r"
  using filter_key_unique [of "attendance_records w" r] assms
  by (auto simp: existingAttendance_def unique_attendance_def single_def)

section \<open>The example data, evaluated\<close>

lemma show_int_ex:
  "show_int 1704708000000 = ''1704708000000''"
  "show_int 1704708120000 = ''1704708120000''"
  "show_int 1704708360000 = ''1704708360000''"
  by (simp_all add: show_int_def show_nat.simps digit_char_def)

lemma example_active_eq:
  "example_active =
    \<lparr>class_sessions = [''s1'' \<mapsto> example_active_session],
     students = students example_world,
     enrollments = enrollments example_world,
     attendance_records = [],
     notifications =
          [\<lparr>nt_user_id = ''u1'', nt_type = ''system'',
              nt_title = ''Class session has started!'',
              nt_session_id = None\<rparr>,
           \<lparr>nt_user_id = ''u2'', nt_type = ''system'',
              nt_title = ''Class session has started!'',
              nt_session_id = None\<rparr>],
     next_id = 0, activeRotations = [''s1'' \<mapsto> 0],
     intervals = [(0, ''s1'')], next_handle = Suc 0, timeouts = [''s1''],
     emitted =
          [Emit Everyone ''session_status_update''
            (Status_payload ''s1'' ''active''),
           Emit Everyone ''session_activated'' (Session_payload ''s1'')]\<rparr>"
  by (simp add: example_active_def activate_def session_with_status_def example_active_session_def
      example_env_def example_session_def example_world_def Let_def
      generateSecureQR_def QR_EXPIRY_SECONDS_def signed_data_def show_int_ex update_session_def
      startQRCodeRotation_def notifyStudentsSessionActivated_def active_enrollments_def emit_def
      or_null_def)

lemma example_token_valid:
  "0 \<le> d \<Longrightarrow> d \<le> 30000 \<Longrightarrow> 0 < t \<Longrightarrow>
   validateQR (hmac_of example_env) (QR_SECRET example_env) (t + d) (t + d)
     (Some (example_token t)) = Valid ''s1'' t"
  by (simp add: validateQR.simps example_env_def example_token_def generateSecureQR_def
        QR_EXPIRY_SECONDS_def Let_def)

lemma example_checks:
  assumes "0 < t"
  shows "scan_checks example_env (example_request t) t t example_active =
     Inr \<lparr>sx_sessionId = ''s1'', sx_session = example_active_session, sx_user_id = ''u1''\<rparr>"
  using example_token_valid [of 0 t] assms
  by (simp add: scan_checks_def example_active_eq example_request_def
       session_with_status_def single_def existingAttendance_def example_world_def
       example_session_def example_active_session_def)

lemma example_scan:
  assumes "0 < t"
  shows "scan example_env (example_request t) t t t example_active =
    (Scan_ok 0 t (if 5 < (t - 1704708000000) div 60000 then ''late'' else ''present'')
       ((t - 1704708000000) div 60000),
     example_active
      \<lparr> class_sessions := [''s1'' \<mapsto> example_active_session \<lparr>cs_attendance_count := 1\<rparr>],
        attendance_records :=
           [\<lparr>ar_id = 0, ar_session_id = ''s1'', ar_student_id = ''u1'',
               ar_scanned_at = t,
               ar_status = (if 5 < (t - 1704708000000) div 60000 then ''late'' else ''present''),
               ar_minutes_late = (if 5 < (t - 1704708000000) div 60000
                                  then (t - 1704708000000) div 60000 else 0),
               ar_device_fingerprint = Some ''Mozilla/5.0'',
               ar_ip_address = Some ''10.0.0.7''\<rparr>],
        notifications := notifications example_active @
            [\<lparr>nt_user_id = ''u1'', nt_type = ''attendance_recorded'',
               nt_title = ''Attendance recorded successfully!'',
               nt_session_id = Some ''s1''\<rparr>],
        next_id := Suc 0,
        emitted := emitted example_active @
           [Emit (Session_room ''s1'') ''attendance_update''
             (Attendance_payload ''s1'' ''5002378''
               (if 5 < (t - 1704708000000) div 60000 then ''late'' else ''present'') t
               (Suc 0) (Suc 0)),
            Emit (Professor_room ''c1'') ''dashboard-attendance-update''
             (Dashboard_payload ''s1'' (Suc 0) (Suc 0))] \<rparr>)"
    (is "_ = ?rhs")
proof -
  have "scan example_env (example_request t) t t t example_active =
        scan_record example_env (example_request t) t
          \<lparr>sx_sessionId = ''s1'', sx_session = example_active_session, sx_user_id = ''u1''\<rparr>
          example_active"
    by (simp add: scan_def example_checks [OF assms])
  also have "\<dots> = ?rhs"
    by (simp add: scan_record_def Let_def minutesLate_def isLate_def insert_row_def
       example_active_eq example_request_def example_env_def example_session_def
       example_active_session_def
       update_session_attendance_count_def update_session_def records_of_session_def emit_def
       attended_def)
  finally show ?thesis .
qed

lemma example_scanned_2min:
  "attendance_records (example_scanned 1704708120000) =
     [\<lparr>ar_id = 0, ar_session_id = ''s1'', ar_student_id = ''u1'',
       ar_scanned_at = 1704708120000, ar_status = ''present'', ar_minutes_late = 0,
       ar_device_fingerprint = Some ''Mozilla/5.0'', ar_ip_address = Some ''10.0.0.7''\<rparr>]"
  "class_sessions (example_scanned 1704708120000) =
     [''s1'' \<mapsto> example_active_session \<lparr>cs_attendance_count := 1\<rparr>]"
  "students (example_scanned 1704708120000) = students example_world"
  "enrollments (example_scanned 1704708120000) = enrollments example_world"
  by (simp_all add: example_scanned_def example_scan) (simp_all add: example_active_eq)

text \<open>
  C2. When the checks of the scan endpoint pass and a record of the token's session and
  of the student is in the table, the answer is the 409 with the \<^verbatim>\<open>id\<close>,
  \<^verbatim>\<open>scanned_at\<close> and \<^verbatim>\<open>status\<close> of that record, and the state is the one before
  the request: nothing is inserted, the counter of the session is not written, no event
  is emitted and no notification is stored.
\<close>

theorem scan_already_recorded:
  assumes "unique_attendance w"
      and "sr_qrData rq = Some (Some q)" and "sr_studentId rq \<noteq> []"
      and "validateQR (hmac_of e) (QR_SECRET e) now currentTime (Some q) = Valid sid ts"
      and "session_with_status w sid ''active'' = Some session"
      and "single (filter (\<lambda>st. st_student_id st = sr_studentId rq) (students w)) = Some studentRecord"
      and "single (filter (\<lambda>en. en_student_id en = st_user_id studentRecord
                               \<and> en_class_instance_id en = cs_class_instance_id session)
                     (enrollments w)) = Some enrollment"
      and "existing \<in> set (attendance_records w)"
      and "ar_session_id existing = sid" and "ar_student_id existing = st_user_id studentRecord"
  shows "scan e rq now currentTime t w =
           (Already_recorded (ar_id existing) (ar_scanned_at existing) (ar_status existing), w)"
proof -
  have ex: "existingAttendance w sid (st_user_id studentRecord) = Some existing"
    using existingAttendance_found assms(1,8,9,10) by blast
  show ?thesis
    using assms(2-7) ex by (simp add: scan_def scan_checks_def)
qed

theorem scan_already_recorded_witness:
  "scan example_env (example_request 1704708120000) 1704708125000 1704708125000 1704708126000
      (example_scanned 1704708120000)
   = (Already_recorded 0 1704708120000 ''present'', example_scanned 1704708120000)"
proof -
  let ?w = "example_scanned 1704708120000"
  let ?r = "\<lparr>ar_id = 0, ar_session_id = ''s1'', ar_student_id = ''u1'',
       ar_scanned_at = 1704708120000, ar_status = ''present'', ar_minutes_late = 0,
       ar_device_fingerprint = Some ''Mozilla/5.0'', ar_ip_address = Some ''10.0.0.7''\<rparr>"
  have 1: "unique_attendance ?w"
    by (simp add: unique_attendance_def example_scanned_2min)
  have 2: "sr_qrData (example_request 1704708120000) = Some (Some (example_token 1704708120000))"
    and 3: "sr_studentId (example_request 1704708120000) \<noteq> []"
    by (simp_all add: example_request_def)
  have 4: "validateQR (hmac_of example_env) (QR_SECRET example_env) 1704708125000 1704708125000
             (Some (example_token 1704708120000)) = Valid ''s1'' 1704708120000"
    using example_token_valid [of 5000 1704708120000] by simp
  have 5: "session_with_status ?w ''s1'' ''active''
             = Some (example_active_session \<lparr>cs_attendance_count := 1\<rparr>)"
    by (simp add: session_with_status_def example_scanned_2min example_active_session_def)
  have 6: "single (filter (\<lambda>st. st_student_id st = sr_studentId (example_request 1704708120000))
                     (students ?w)) = Some \<lparr> st_user_id = ''u1'', st_student_id = ''5002378'' \<rparr>"
    by (simp add: example_scanned_2min example_world_def example_request_def single_def)
  have 7: "single (filter (\<lambda>en. en_student_id en = st_user_id \<lparr> st_user_id = ''u1'', st_student_id = ''5002378'' \<rparr>
                \<and> en_class_instance_id en = cs_class_instance_id (example_active_session \<lparr>cs_attendance_count := 1\<rparr>))
                     (enrollments ?w))
             = Some \<lparr> en_student_id = ''u1'', en_class_instance_id = ''c1'', en_status = ''active'' \<rparr>"
    by (simp add: example_scanned_2min example_world_def single_def example_active_session_def
          example_session_def)
  have 8: "?r \<in> set (attendance_records ?w)"
    by (simp add: example_scanned_2min)
  have 9: "ar_session_id ?r = ''s1''"
    and 10: "ar_student_id ?r = st_user_id \<lparr> st_user_id = ''u1'', st_student_id = ''5002378'' \<rparr>"
    by simp_all
  from scan_already_recorded [OF 1 2 3 4 5 6 7 8 9 10, of 1704708126000]
  show ?thesis by simp
qed

section \<open>Lateness\<close>

lemma scan_checks_Inr:
  assumes "scan_checks e rq now currentTime w = Inr c"
  shows "\<exists>q ts. sr_qrData rq = Some (Some q)
           \<and> validateQR (hmac_of e) (QR_SECRET e) now currentTime (Some q) = Valid (sx_sessionId c) ts
           \<and> session_with_status w (sx_sessionId c) ''active'' = Some (sx_session c)"
  using assms
  by (auto simp: scan_checks_def split: option.splits if_splits validation.splits)

lemma scan_checks_Inl:
  "scan_checks e rq now currentTime w = Inl r \<Longrightarrow> r \<noteq> Scan_ok i sa st ml"
  by (auto simp: scan_checks_def split: option.splits if_splits validation.splits)

lemma scan_record_Scan_ok:
  assumes "scan_record e rq t c w = (Scan_ok i sa st ml, w')"
  shows "ml = minutesLate e (sx_session c) t
       \<and> sa = t
       \<and> st = (if isLate ml then ''late'' else ''present'')
       \<and> (\<exists>r. attendance_records w' = attendance_records w @ [r] \<and> ar_id r = i
             \<and> ar_session_id r = sx_sessionId c \<and> ar_student_id r = sx_user_id c
             \<and> ar_scanned_at r = t \<and> ar_status r = st
             \<and> ar_minutes_late r = (if isLate ml then ml else 0))"
proof -
  let ?n = "\<lparr> na_session_id = sx_sessionId c, na_student_id = sx_user_id c,
                  na_scanned_at = Some t,
                  na_status = (if isLate (minutesLate e (sx_session c) t) then ''late'' else ''present''),
                  na_minutes_late = Some (if isLate (minutesLate e (sx_session c) t) then minutesLate e (sx_session c) t else 0),
                  na_device_fingerprint =
                    (case sr_user_agent rq of
                       None \<Rightarrow> Some ''unknown''
                     | Some ua \<Rightarrow> if ua = [] then Some ''unknown'' else Some ua),
                  na_ip_address = sr_ip rq \<rparr>"
  show ?thesis
  proof (cases "insert_row ?n t w")
    case (Inl a)
    then show ?thesis using assms by (simp add: scan_record_def Let_def)
  next
    case (Inr b)
    obtain r w1 where b: "b = (r, w1)" by (cases b)
    note ins = insert_row_Inr [OF Inr [unfolded b]]
    from assms Inr b have res: "i = ar_id r" "sa = ar_scanned_at r" "st = ar_status r"
        "ml = minutesLate e (sx_session c) t"
      and w': "attendance_records w' = attendance_records w1"
      by (auto simp: scan_record_def Let_def)
    from ins(1) w' have "attendance_records w' = attendance_records w @ [r]" by simp
    moreover from ins res have "sa = t" "st = (if isLate ml then ''late'' else ''present'')"
        "ar_session_id r = sx_sessionId c" "ar_student_id r = sx_user_id c"
        "ar_scanned_at r = t" "ar_minutes_late r = (if isLate ml then ml else 0)"
      by simp_all
    ultimately show ?thesis using res by (intro conjI exI [of _ r]) simp_all
  qed
qed

lemma record_attendance_ok:
  assumes "record_attendance e sid b now w = (Attendance_ok r, w')"
  shows "\<exists>session. class_sessions w sid = Some session
          \<and> ar_minutes_late r = max 0 (minutesLate e session now)
          \<and> ar_status r = (if minutesLate e session now > 5 then ''late'' else ''present'')
          \<and> attendance_records w' = attendance_records w @ [r]"
proof -
  from assms obtain session where s: "class_sessions w sid = Some session"
    by (auto simp: record_attendance_def split: option.splits)
  let ?m = "max 0 (minutesLate e session now)"
  let ?n = "\<lparr> na_session_id = sid, na_student_id = ab_student_id b,
                            na_scanned_at = None, na_status = (if ?m > 5 then ''late'' else ''present''),
                            na_minutes_late = Some ?m,
                            na_device_fingerprint = ab_device_fingerprint b,
                            na_ip_address = ab_ip_address b \<rparr>"
  from assms s have ins: "insert_row ?n now w = Inr (r, w')"
    by (auto simp: record_attendance_def Let_def split: option.splits if_splits sum.splits)
  note f = insert_row_Inr [OF ins]
  from f(1) f(7) f(9) have "attendance_records w' = attendance_records w @ [r]"
     "ar_minutes_late r = ?m" "ar_status r = (if ?m > 5 then ''late'' else ''present'')"
    by simp_all
  moreover have "(?m > 5) = (minutesLate e session now > 5)" by auto
  ultimately show ?thesis using s by auto
qed

text \<open>
  C5 (as the code has it). Lateness is measured against the scheduled start of the class:
  with \<open>m\<close> the whole minutes from \<^verbatim>\<open>new Date(`${date}T${start_time}`)\<close> to the
  redemption, rounded down, the status is \<^verbatim>\<open>late\<close> exactly when \<open>m > 5\<close>. The
  scan endpoint stores \<^verbatim>\<open>minutes_late = m\<close> for a late record and \<open>0\<close> otherwise
  (line 144: \<^verbatim>\<open>isLate ? minutesLate : 0\<close>), and answers with \<open>m\<close> itself. The
  endpoint \<^verbatim>\<open>POST /api/sessions/:sessionId/attendance\<close> stores \<open>max 0 m\<close>.
\<close>

theorem scan_lateness:
  "(scan e rq now currentTime t w = (Scan_ok i sa st ml, w') \<longrightarrow>
      (\<exists>q ts sid session.
          sr_qrData rq = Some (Some q)
        \<and> validateQR (hmac_of e) (QR_SECRET e) now currentTime (Some q) = Valid sid ts
        \<and> session_with_status w sid ''active'' = Some session
        \<and> (let m = (t - Date_parse e (cs_date session @ ''T'' @ cs_start_time session)) div 60000
           in ml = m \<and> sa = t \<and> st = (if m > 5 then ''late'' else ''present'')
            \<and> (\<exists>r. attendance_records w' = attendance_records w @ [r]
                  \<and> ar_id r = i \<and> ar_session_id r = sid \<and> ar_scanned_at r = t
                  \<and> ar_status r = st
                  \<and> ar_minutes_late r = (if m > 5 then m else 0)))))
   \<and> (record_attendance e sid' b now' w0 = (Attendance_ok r0, w0') \<longrightarrow>
      (\<exists>session. class_sessions w0 sid' = Some session
        \<and> (let m = (now' - Date_parse e (cs_date session @ ''T'' @ cs_start_time session)) div 60000
           in ar_minutes_late r0 = max 0 m
            \<and> ar_status r0 = (if m > 5 then ''late'' else ''present'')
            \<and> attendance_records w0' = attendance_records w0 @ [r0])))"
proof (intro conjI impI)
  assume a: "scan e rq now currentTime t w = (Scan_ok i sa st ml, w')"
  then obtain c where c: "scan_checks e rq now currentTime w = Inr c"
    and r: "scan_record e rq t c w = (Scan_ok i sa st ml, w')"
    using scan_checks_Inl [of e rq now currentTime w _ i sa st ml]
    by (auto simp: scan_def split: sum.splits)
  from scan_checks_Inr [OF c] obtain q ts where q: "sr_qrData rq = Some (Some q)"
    "validateQR (hmac_of e) (QR_SECRET e) now currentTime (Some q) = Valid (sx_sessionId c) ts"
    "session_with_status w (sx_sessionId c) ''active'' = Some (sx_session c)"
    by blast
  from scan_record_Scan_ok [OF r] obtain rr where rr:
    "ml = minutesLate e (sx_session c) t" "sa = t"
    "st = (if isLate ml then ''late'' else ''present'')"
    "attendance_records w' = attendance_records w @ [rr]" "ar_id rr = i"
    "ar_session_id rr = sx_sessionId c" "ar_scanned_at rr = t" "ar_status rr = st"
    "ar_minutes_late rr = (if isLate ml then ml else 0)"
    by blast
  show "\<exists>q ts sid session.
          sr_qrData rq = Some (Some q)
        \<and> validateQR (hmac_of e) (QR_SECRET e) now currentTime (Some q) = Valid sid ts
        \<and> session_with_status w sid ''active'' = Some session
        \<and> (let m = (t - Date_parse e (cs_date session @ ''T'' @ cs_start_time session)) div 60000
           in ml = m \<and> sa = t \<and> st = (if m > 5 then ''late'' else ''present'')
            \<and> (\<exists>r. attendance_records w' = attendance_records w @ [r]
                  \<and> ar_id r = i \<and> ar_session_id r = sid \<and> ar_scanned_at r = t
                  \<and> ar_status r = st
                  \<and> ar_minutes_late r = (if m > 5 then m else 0)))"
    apply (rule exI [of _ q], rule exI [of _ ts], rule exI [of _ "sx_sessionId c"],
           rule exI [of _ "sx_session c"])
    using q rr by (auto simp: Let_def minutesLate_def isLate_def)
next
  assume "record_attendance e sid' b now' w0 = (Attendance_ok r0, w0')"
  from record_attendance_ok [OF this]
  show "\<exists>session. class_sessions w0 sid' = Some session
        \<and> (let m = (now' - Date_parse e (cs_date session @ ''T'' @ cs_start_time session)) div 60000
           in ar_minutes_late r0 = max 0 m
            \<and> ar_status r0 = (if m > 5 then ''late'' else ''present'')
            \<and> attendance_records w0' = attendance_records w0 @ [r0])"
    by (auto simp: Let_def minutesLate_def)
qed

lemma example_active_only:
  "session_with_status example_active sid ''active'' = Some session
   \<Longrightarrow> session = example_active_session"
  by (simp add: session_with_status_def example_active_eq split: if_splits option.splits)

lemma example_start:
  "Date_parse example_env (cs_date example_active_session @ ''T'' @ cs_start_time example_active_session)
     = 1704708000000"
  "Date_parse example_env (cs_date example_active_session @ CHR ''T'' # cs_start_time example_active_session)
     = 1704708000000"
  by (simp_all add: example_env_def example_active_session_def example_session_def)

lemma example_direct_2min:
  "record_attendance example_env ''s1''
      \<lparr> ab_student_id = ''u1'', ab_device_fingerprint = None, ab_ip_address = None \<rparr>
      1704708120000 example_active
   = (Attendance_ok
        \<lparr>ar_id = 0, ar_session_id = ''s1'', ar_student_id = ''u1'',
          ar_scanned_at = 1704708120000, ar_status = ''present'', ar_minutes_late = 2,
          ar_device_fingerprint = None, ar_ip_address = None\<rparr>,
      example_active
        \<lparr> class_sessions := [''s1'' \<mapsto> example_active_session \<lparr>cs_attendance_count := 1\<rparr>],
          attendance_records :=
            [\<lparr>ar_id = 0, ar_session_id = ''s1'', ar_student_id = ''u1'',
              ar_scanned_at = 1704708120000, ar_status = ''present'', ar_minutes_late = 2,
              ar_device_fingerprint = None, ar_ip_address = None\<rparr>],
          next_id := Suc 0 \<rparr>)"
  by (simp add: record_attendance_def Let_def minutesLate_def insert_row_def single_def
       example_active_eq example_env_def example_session_def example_world_def
       example_active_session_def
       update_session_attendance_count_def update_session_def records_of_session_def)

theorem scan_lateness_witness:
  "scan example_env (example_request 1704708360000) 1704708360000 1704708360000 1704708360000
      example_active = (Scan_ok 0 1704708360000 ''late'' 6, example_scanned 1704708360000)
   \<and> map ar_status (attendance_records (example_scanned 1704708360000)) = [''late'']
   \<and> map ar_minutes_late (attendance_records (example_scanned 1704708360000)) = [6]
   \<and> fst (record_attendance example_env ''s1''
            \<lparr> ab_student_id = ''u1'', ab_device_fingerprint = None, ab_ip_address = None \<rparr>
            1704708120000 example_active)
       = Attendance_ok
        \<lparr>ar_id = 0, ar_session_id = ''s1'', ar_student_id = ''u1'',
          ar_scanned_at = 1704708120000, ar_status = ''present'', ar_minutes_late = 2,
          ar_device_fingerprint = None, ar_ip_address = None\<rparr>"
proof -
  let ?T = "1704708360000 :: int"
  let ?r0 = "\<lparr>ar_id = 0, ar_session_id = ''s1'', ar_student_id = ''u1'',
          ar_scanned_at = 1704708120000, ar_status = ''present'', ar_minutes_late = 2,
          ar_device_fingerprint = None, ar_ip_address = None\<rparr>"
  have sc: "scan example_env (example_request ?T) ?T ?T ?T example_active
             = (Scan_ok 0 ?T ''late'' 6, example_scanned ?T)"
    by (simp add: example_scanned_def example_scan)
  note th = scan_lateness [where e = example_env and rq = "example_request ?T" and now = ?T
      and currentTime = ?T and t = ?T and w = example_active and i = 0 and sa = ?T
      and st = "''late''" and ml = 6 and w' = "example_scanned ?T"
      and sid' = "''s1''"
      and b = "\<lparr> ab_student_id = ''u1'', ab_device_fingerprint = None, ab_ip_address = None \<rparr>"
      and now' = 1704708120000 and ?w0.0 = example_active and ?r0.0 = ?r0
      and w0' = "snd (record_attendance example_env ''s1''
            \<lparr> ab_student_id = ''u1'', ab_device_fingerprint = None, ab_ip_address = None \<rparr>
            1704708120000 example_active)"]
  note ex = th [THEN conjunct1, THEN mp, OF sc]
  from ex obtain sid session where
      A: "session_with_status example_active sid ''active'' = Some session"
    and B: "let m = (?T - Date_parse example_env (cs_date session @ ''T'' @ cs_start_time session)) div 60000
           in 6 = m \<and> ?T = ?T \<and> ''late'' = (if m > 5 then ''late'' else ''present'')
            \<and> (\<exists>r. attendance_records (example_scanned ?T) = attendance_records example_active @ [r]
                  \<and> ar_id r = 0 \<and> ar_session_id r = sid \<and> ar_scanned_at r = ?T
                  \<and> ar_status r = ''late''
                  \<and> ar_minutes_late r = (if m > 5 then m else 0))"
    by (elim exE conjE) (rule that, assumption+)
  have se: "session = example_active_session" by (rule example_active_only [OF A])
  from B have "\<exists>r. attendance_records (example_scanned ?T) = attendance_records example_active @ [r]
                  \<and> ar_status r = ''late'' \<and> ar_minutes_late r = 6"
    by (simp add: se Let_def example_start) blast
  then obtain r where
      r: "attendance_records (example_scanned ?T) = attendance_records example_active @ [r]"
         "ar_status r = ''late''" "ar_minutes_late r = 6"
    by blast
  from r have a: "map ar_status (attendance_records (example_scanned ?T)) = [''late'']"
    and b: "map ar_minutes_late (attendance_records (example_scanned ?T)) = [6]"
    by (simp_all add: example_active_eq)
  have c: "fst (record_attendance example_env ''s1''
            \<lparr> ab_student_id = ''u1'', ab_device_fingerprint = None, ab_ip_address = None \<rparr>
            1704708120000 example_active) = Attendance_ok ?r0"
    by (simp add: example_direct_2min)
  from sc a b c show ?thesis by simp
qed

text \<open>
  The formula of the specification fails on the scan endpoint two minutes after the
  scheduled start:
  the formula gives 2, the record holds 0 (and the answer to the client holds 2).
\<close>

theorem scan_lateness_counterexample:
  "fst (scan example_env (example_request 1704708120000) 1704708120000 1704708120000
          1704708120000 example_active) = Scan_ok 0 1704708120000 ''present'' 2
   \<and> map ar_minutes_late
        (attendance_records
          (snd (scan example_env (example_request 1704708120000) 1704708120000 1704708120000
                  1704708120000 example_active))) = [0]
   \<and> max 0 ((1704708120000
              - Date_parse example_env
                  (cs_date example_active_session @ ''T'' @ cs_start_time example_active_session))
             div 60000) = 2"
  by (simp add: example_scan example_start)

section \<open>Every writer of attendance records keeps the constraint\<close>

lemma record_attendance_unique:
  assumes "unique_attendance w"
  shows "unique_attendance (snd (record_attendance e sid b now w))"
proof (cases "record_attendance e sid b now w")
  case (Pair r w')
  show ?thesis
  proof (cases "w' = w")
    case True
    with Pair assms show ?thesis by simp
  next
    case False
    with Pair obtain n row where "insert_row n now w = Inr (row, w')"
      by (auto simp: record_attendance_def Let_def split: option.splits if_splits sum.splits)
    from insert_row_unique [OF this assms] Pair show ?thesis by simp
  qed
qed

lemma reconciliation_unique:
  assumes "reconciliation sid c now w = Inr w'" and "unique_attendance w"
  shows "unique_attendance w'"
  using assms insert_rows_unique [of _ now w w']
  by (auto simp: reconciliation_def Let_def split: if_splits)

lemma complete_unique:
  assumes "unique_attendance w"
  shows "unique_attendance (snd (complete e sid now w))"
proof -
  have u1: "unique_attendance (stopQRCodeRotation sid w)"
    using assms by (simp add: unique_attendance_def)
  show ?thesis
    using u1 reconciliation_unique [of sid _ now "stopQRCodeRotation sid w"]
    by (auto simp: complete_def Let_def unique_attendance_def split: option.splits sum.splits)
qed

lemma completeSessionAutomatically_unique:
  assumes "unique_attendance w"
  shows "unique_attendance (snd (completeSessionAutomatically e sid now w))"
proof -
  have u1: "unique_attendance (stopQRCodeRotation sid w)"
    using assms by (simp add: unique_attendance_def)
  show ?thesis
    using assms u1 reconciliation_unique [of sid _ now "stopQRCodeRotation sid w"]
    by (auto simp: completeSessionAutomatically_def Let_def unique_attendance_def
             split: option.splits sum.splits)
qed

lemma single_None_unique:
  "distinct (map ar_key rs) \<Longrightarrow>
   single (filter (\<lambda>r. ar_session_id r = S \<and> ar_student_id r = s) rs) = None \<Longrightarrow>
   (S, s) \<notin> set (map ar_key rs)"
proof
  assume d: "distinct (map ar_key rs)"
    and n: "single (filter (\<lambda>r. ar_session_id r = S \<and> ar_student_id r = s) rs) = None"
    and m: "(S, s) \<in> set (map ar_key rs)"
  from m obtain r where r: "r \<in> set rs" "ar_key r = (S, s)" by auto
  then have "ar_session_id r = S" "ar_student_id r = s" by (simp_all add: ar_key_def)
  with filter_key_unique [OF d r(1)]
  have "filter (\<lambda>x. ar_session_id x = S \<and> ar_student_id x = s) rs = [r]" by simp
  with n show False by (simp add: single_def)
qed

lemma scan_checks_no_record:
  assumes "unique_attendance w" and "scan_checks e rq now currentTime w = Inr c"
  shows "(sx_sessionId c, sx_user_id c) \<notin> set (map ar_key (attendance_records w))"
proof -
  from assms(2) have "existingAttendance w (sx_sessionId c) (sx_user_id c) = None"
    by (auto simp: scan_checks_def split: option.splits if_splits validation.splits)
  with assms(1) show ?thesis
    using single_None_unique [of "attendance_records w" "sx_sessionId c" "sx_user_id c"]
    by (simp add: existingAttendance_def unique_attendance_def)
qed

section \<open>Concurrent scans\<close>

lemma scan_fingerprint:
  "fingerprint_fits (case sr_user_agent rq of
                       None \<Rightarrow> Some ''unknown''
                     | Some ua \<Rightarrow> if ua = [] then Some ''unknown'' else Some ua)
   = fingerprint_fits (sr_user_agent rq)"
  by (simp add: fingerprint_fits_def split: option.splits)

lemma key_absent_count:
  "(S, s) \<notin> set (map ar_key rs) \<Longrightarrow>
   filter (\<lambda>r. ar_session_id r = S \<and> ar_student_id r = s) rs = []"
  by (auto simp: filter_empty_conv ar_key_def)

lemma key_present_count:
  assumes "distinct (map ar_key rs)" and "(S, s) \<in> set (map ar_key rs)"
  shows "length (filter (\<lambda>r. ar_session_id r = S \<and> ar_student_id r = s) rs) = 1"
proof -
  from assms(2) obtain r where r: "r \<in> set rs" "ar_session_id r = S" "ar_student_id r = s"
    by (auto simp: ar_key_def)
  from filter_key_unique [OF assms(1) r(1)] r(2,3) show ?thesis by simp
qed

lemma scan_record_refused:
  assumes "\<not> fingerprint_fits (sr_user_agent rq)
         \<or> (sx_sessionId c, sx_user_id c) \<in> set (map ar_key (attendance_records w))"
  shows "scan_record e rq t c w = (Failed 500 ''Failed to record attendance'', w)"
proof (cases "fingerprint_fits (sr_user_agent rq)")
  case True
  with assms have "(sx_sessionId c, sx_user_id c) \<in> set (map ar_key (attendance_records w))"
    by simp
  then show ?thesis
    by (simp add: scan_record_def Let_def insert_row_refused)
next
  case False
  then show ?thesis
    by (simp add: scan_record_def Let_def insert_row_too_long scan_fingerprint)
qed

lemma scan_record_created:
  assumes "fingerprint_fits (sr_user_agent rq)"
    and "(sx_sessionId c, sx_user_id c) \<notin> set (map ar_key (attendance_records w))"
  shows "\<exists>r w'. scan_record e rq t c w
                   = (Scan_ok (ar_id r) t (ar_status r) (minutesLate e (sx_session c) t), w')
           \<and> attendance_records w' = attendance_records w @ [r]
           \<and> ar_session_id r = sx_sessionId c \<and> ar_student_id r = sx_user_id c
           \<and> ar_scanned_at r = t
           \<and> ar_status r = (if isLate (minutesLate e (sx_session c) t) then ''late'' else ''present'')"
proof -
  let ?n = "\<lparr> na_session_id = sx_sessionId c, na_student_id = sx_user_id c,
                  na_scanned_at = Some t,
                  na_status = (if isLate (minutesLate e (sx_session c) t) then ''late'' else ''present''),
                  na_minutes_late = Some (if isLate (minutesLate e (sx_session c) t) then minutesLate e (sx_session c) t else 0),
                  na_device_fingerprint =
                    (case sr_user_agent rq of
                       None \<Rightarrow> Some ''unknown''
                     | Some ua \<Rightarrow> if ua = [] then Some ''unknown'' else Some ua),
                  na_ip_address = sr_ip rq \<rparr>"
  have "fingerprint_fits (na_device_fingerprint ?n)"
    using assms(1) by (simp add: scan_fingerprint)
  moreover have "(na_session_id ?n, na_student_id ?n) \<notin> set (map ar_key (attendance_records w))"
    using assms(2) by simp
  ultimately obtain r w1 where ins: "insert_row ?n t w = Inr (r, w1)"
    using insert_row_accepted by blast
  note f = insert_row_Inr [OF ins]
  obtain w' where res: "scan_record e rq t c w
       = (Scan_ok (ar_id r) (ar_scanned_at r) (ar_status r) (minutesLate e (sx_session c) t), w')"
     and rec: "attendance_records w' = attendance_records w1"
    using ins by (simp add: scan_record_def Let_def update_session_fields emit_fields)
  from f(8) have sa: "ar_scanned_at r = t" by simp
  from f(7) have st: "ar_status r
       = (if isLate (minutesLate e (sx_session c) t) then ''late'' else ''present'')" by simp
  from f(5) have a: "ar_session_id r = sx_sessionId c" by simp
  from f(6) have b: "ar_student_id r = sx_user_id c" by simp
  from res sa rec f(1) a b st show ?thesis by auto
qed

lemma scan_record_exactly_one:
  assumes "unique_attendance w" and "fingerprint_fits (sr_user_agent rq)"
  shows "length (filter (\<lambda>r. ar_session_id r = sx_sessionId c \<and> ar_student_id r = sx_user_id c)
                   (attendance_records (snd (scan_record e rq t c w)))) = 1"
proof (cases "(sx_sessionId c, sx_user_id c) \<in> set (map ar_key (attendance_records w))")
  case True
  then have "scan_record e rq t c w = (Failed 500 ''Failed to record attendance'', w)"
    by (simp add: scan_record_refused)
  moreover have "length (filter (\<lambda>r. ar_session_id r = sx_sessionId c \<and> ar_student_id r = sx_user_id c)
                   (attendance_records w)) = 1"
    using key_present_count [OF _ True] assms(1) by (simp add: unique_attendance_def)
  ultimately show ?thesis by simp
next
  case False
  from scan_record_created [OF assms(2) False, of e t] obtain r w' where
    r: "scan_record e rq t c w
          = (Scan_ok (ar_id r) t (ar_status r) (minutesLate e (sx_session c) t), w')"
       "attendance_records w' = attendance_records w @ [r]"
       "ar_session_id r = sx_sessionId c" "ar_student_id r = sx_user_id c"
    by blast
  from key_absent_count [OF False] r show ?thesis by simp
qed

lemma step_task_grows:
  "\<exists>new. attendance_records (snd (step_task e tk w)) = attendance_records w @ new
         \<and> list_all (\<lambda>r. ar_status r = ''present'' \<or> ar_status r = ''late'') new"
proof (cases tk)
  case (Arrived rq now currentTime t)
  then show ?thesis by (simp add: step_task_def split: sum.splits)
next
  case (Checked rq t c)
  show ?thesis
  proof (cases "fingerprint_fits (sr_user_agent rq)
        \<and> (sx_sessionId c, sx_user_id c) \<notin> set (map ar_key (attendance_records w))")
    case True
    from scan_record_created [of rq c w e t] True obtain r w' where
      r: "scan_record e rq t c w
          = (Scan_ok (ar_id r) t (ar_status r) (minutesLate e (sx_session c) t), w')"
      "attendance_records w' = attendance_records w @ [r]"
      "ar_status r = (if isLate (minutesLate e (sx_session c) t) then ''late'' else ''present'')"
      by blast
    have "attendance_records (snd (step_task e tk w)) = attendance_records w @ [r]"
      using Checked r(1,2) by (simp add: step_task_def)
    moreover have "list_all (\<lambda>r. ar_status r = ''present'' \<or> ar_status r = ''late'') [r]"
      using r(3) by simp
    ultimately show ?thesis by blast
  next
    case False
    then have "scan_record e rq t c w = (Failed 500 ''Failed to record attendance'', w)"
      using scan_record_refused [of rq c w e t] by blast
    with Checked show ?thesis by (simp add: step_task_def)
  qed
next
  case (Answered r)
  then show ?thesis by (simp add: step_task_def)
qed

lemma run_grows:
  "\<exists>new. attendance_records (snd (run e sched (tasks, w))) = attendance_records w @ new
         \<and> list_all (\<lambda>r. ar_status r = ''present'' \<or> ar_status r = ''late'') new"
proof (induction sched arbitrary: tasks w)
  case Nil
  then show ?case by simp
next
  case (Cons i sched)
  show ?case
  proof (cases "i < length tasks")
    case True
    obtain tk w' where st: "step_task e (tasks ! i) w = (tk, w')"
      by (cases "step_task e (tasks ! i) w")
    from step_task_grows [of e "tasks ! i" w] st obtain n1 where
      n1: "attendance_records w' = attendance_records w @ n1"
          "list_all (\<lambda>r. ar_status r = ''present'' \<or> ar_status r = ''late'') n1" by auto
    from Cons.IH [of "tasks[i := tk]" w'] obtain n2 where
      n2: "attendance_records (snd (run e sched (tasks[i := tk], w'))) = attendance_records w' @ n2"
          "list_all (\<lambda>r. ar_status r = ''present'' \<or> ar_status r = ''late'') n2"
      by blast
    have "attendance_records (snd (run e (i # sched) (tasks, w)))
            = attendance_records w @ (n1 @ n2)"
      using n1(1) n2(1) True st by simp
    moreover have "list_all (\<lambda>r. ar_status r = ''present'' \<or> ar_status r = ''late'') (n1 @ n2)"
      using n1(2) n2(2) by simp
    ultimately show ?thesis by blast
  next
    case False
    then show ?thesis using Cons.IH [of tasks w] by simp
  qed
qed

lemma run_append:
  "run e (s1 @ s2) st = run e s2 (run e s1 st)"
proof (induction s1 arbitrary: st)
  case Nil
  show ?case by (cases st) simp
next
  case (Cons i s1)
  obtain tasks w where st: "st = (tasks, w)" by (cases st)
  show ?case
  proof (cases "i < length tasks")
    case True
    obtain tk w' where "step_task e (tasks ! i) w = (tk, w')"
      by (cases "step_task e (tasks ! i) w")
    with True st Cons.IH show ?thesis by simp
  next
    case False
    with st Cons.IH show ?thesis by simp
  qed
qed

lemma run_exactly_one:
  assumes "unique_attendance w"
    and "run e sched1 (tasks, w) = (tasks1, w1)"
    and "i < length tasks1" and "tasks1 ! i = Checked rq t c"
    and "fingerprint_fits (sr_user_agent rq)"
  shows "length (filter (\<lambda>r. ar_session_id r = sx_sessionId c \<and> ar_student_id r = sx_user_id c)
           (attendance_records (snd (run e (sched1 @ i # sched2) (tasks, w))))) = 1"
proof -
  let ?P = "\<lambda>r. ar_session_id r = sx_sessionId c \<and> ar_student_id r = sx_user_id c"
  have u1: "unique_attendance w1"
    using run_unique [OF assms(1), of e sched1 tasks] assms(2) by simp
  obtain r w2 where sr: "scan_record e rq t c w1 = (r, w2)" by (cases "scan_record e rq t c w1")
  have one: "length (filter ?P (attendance_records w2)) = 1"
    using scan_record_exactly_one [OF u1 assms(5), of c e t] sr by simp
  have u2: "unique_attendance w2"
    using scan_record_unique [OF u1, of e rq t c] sr by simp
  have eq: "run e (sched1 @ i # sched2) (tasks, w) = run e sched2 (tasks1[i := Answered r], w2)"
    using assms(2,3,4) sr by (simp add: run_append step_task_def)
  from run_grows [of e sched2 "tasks1[i := Answered r]" w2] obtain new where
    new: "attendance_records (snd (run e sched2 (tasks1[i := Answered r], w2)))
            = attendance_records w2 @ new" by blast
  have "length (filter ?P (attendance_records (snd (run e sched2 (tasks1[i := Answered r], w2))))) \<le> 1"
    using run_unique [OF u2, of e sched2 "tasks1[i := Answered r]"]
    unfolding unique_attendance_def by (rule unique_at_most_one)
  with new one have "length (filter ?P (attendance_records (snd (run e sched2 (tasks1[i := Answered r], w2))))) = 1"
    by simp
  with eq show ?thesis by simp
qed

lemma run_created:
  assumes "unique_attendance w"
    and "run e sched1 (tasks, w) = (tasks1, w1)"
    and "i < length tasks1" and "tasks1 ! i = Checked rq t c"
    and "fingerprint_fits (sr_user_agent rq)"
    and "(sx_sessionId c, sx_user_id c) \<notin> set (map ar_key (attendance_records w))"
  shows "\<exists>r. filter (\<lambda>r. ar_session_id r = sx_sessionId c \<and> ar_student_id r = sx_user_id c)
                (attendance_records (snd (run e (sched1 @ i # sched2) (tasks, w)))) = [r]
             \<and> (ar_status r = ''present'' \<or> ar_status r = ''late'')
             \<and> r \<notin> set (attendance_records w)"
proof -
  let ?P = "\<lambda>r. ar_session_id r = sx_sessionId c \<and> ar_student_id r = sx_user_id c"
  let ?final = "attendance_records (snd (run e (sched1 @ i # sched2) (tasks, w)))"
  from run_exactly_one [OF assms(1-5), of sched2]
  have "length (filter ?P ?final) = 1" .
  then obtain r where r: "filter ?P ?final = [r]"
    by (cases "filter ?P ?final") simp_all
  from run_grows [of e "sched1 @ i # sched2" tasks w] obtain new where
    new: "?final = attendance_records w @ new"
         "list_all (\<lambda>r. ar_status r = ''present'' \<or> ar_status r = ''late'') new"
    by blast
  have old: "filter ?P (attendance_records w) = []"
    by (rule key_absent_count [OF assms(6)])
  from r new(1) old have "filter ?P new = [r]" by simp
  then have "r \<in> set (filter ?P new)" by simp
  then have rin: "r \<in> set new" and rP: "?P r" by simp_all
  from rin new(2) have st: "ar_status r = ''present'' \<or> ar_status r = ''late''"
    by (simp add: list_all_iff)
  from rP have "ar_key r = (sx_sessionId c, sx_user_id c)" by (simp add: ar_key_def)
  with assms(6) have "r \<notin> set (attendance_records w)" by force
  with r st show ?thesis by blast
qed

lemma scan_checks_existing:
  assumes "unique_attendance w"
      and "sr_qrData rq = Some (Some q)" and "sr_studentId rq \<noteq> []"
      and "validateQR (hmac_of e) (QR_SECRET e) now currentTime (Some q) = Valid sid ts"
      and "session_with_status w sid ''active'' = Some session"
      and "single (filter (\<lambda>st. st_student_id st = sr_studentId rq) (students w)) = Some studentRecord"
      and "single (filter (\<lambda>en. en_student_id en = st_user_id studentRecord
                               \<and> en_class_instance_id en = cs_class_instance_id session)
                     (enrollments w)) = Some enrollment"
      and "existing \<in> set (attendance_records w)"
      and "ar_session_id existing = sid" and "ar_student_id existing = st_user_id studentRecord"
  shows "scan_checks e rq now currentTime w =
           Inl (Already_recorded (ar_id existing) (ar_scanned_at existing) (ar_status existing))"
proof -
  have ex: "existingAttendance w sid (st_user_id studentRecord) = Some existing"
    using existingAttendance_found assms(1,8,9,10) by blast
  show ?thesis
    using assms(2-7) ex by (simp add: scan_checks_def)
qed

lemma example_checks_later:
  assumes "0 < t" and "0 \<le> d" and "d \<le> 30000"
  shows "scan_checks example_env (example_request t) (t + d) (t + d) example_active =
     Inr \<lparr>sx_sessionId = ''s1'', sx_session = example_active_session, sx_user_id = ''u1''\<rparr>"
  using example_token_valid [of d t] assms
  by (simp add: scan_checks_def example_active_eq example_request_def
       session_with_status_def single_def existingAttendance_def example_world_def
       example_session_def example_active_session_def)

lemma example_record_first:
  assumes "0 < t"
  shows "scan_record example_env (example_request t) t
           \<lparr>sx_sessionId = ''s1'', sx_session = example_active_session, sx_user_id = ''u1''\<rparr>
           example_active
         = scan example_env (example_request t) t t t example_active"
  by (simp add: scan_def example_checks [OF assms])

lemma example_record_second:
  assumes "0 < t"
  shows "scan_record example_env (example_request t) t'
           \<lparr>sx_sessionId = ''s1'', sx_session = example_active_session, sx_user_id = ''u1''\<rparr>
           (example_scanned t)
         = (Failed 500 ''Failed to record attendance'', example_scanned t)"
proof -
  have "attendance_records (example_scanned t) \<noteq> []
        \<and> map ar_key (attendance_records (example_scanned t)) = [(''s1'', ''u1'')]"
    using assms by (simp add: example_scanned_def example_scan ar_key_def)
  then show ?thesis
    by (simp add: scan_record_def Let_def insert_row_def)
qed




section \<open>Reconciliation\<close>

lemma update_session_class:
  "class_sessions w sid = Some s \<Longrightarrow>
   (\<And>x. cs_class_instance_id (f x) = cs_class_instance_id x) \<Longrightarrow>
   \<exists>s'. class_sessions (update_session sid' f w) sid = Some s'
        \<and> cs_class_instance_id s' = cs_class_instance_id s"
  by (auto simp: update_session_def split: option.splits)

lemma insert_row_session:
  assumes "insert_row n now w = Inr (r, w')" and "class_sessions w sid = Some s"
  shows "\<exists>s'. class_sessions w' sid = Some s' \<and> cs_class_instance_id s' = cs_class_instance_id s
              \<and> cs_status s' = cs_status s"
  using assms
  by (auto simp: insert_row_def Let_def update_session_attendance_count_def update_session_def
           split: if_splits option.splits)

lemma insert_rows_absent:
  assumes "distinct us"
      and "\<forall>u\<in>set us. (sid, u) \<notin> set (map ar_key (attendance_records w))"
      and "class_sessions w sid = Some s"
  shows "\<exists>w' new s'. insert_rows (absentRecords sid now us) now w = Inr w'
           \<and> attendance_records w' = attendance_records w @ new
           \<and> map ar_view new = map (\<lambda>u. (sid, u, ''absent'', 0, now)) us
           \<and> enrollments w' = enrollments w
           \<and> class_sessions w' sid = Some s'
           \<and> cs_class_instance_id s' = cs_class_instance_id s
           \<and> cs_status s' = cs_status s"
  using assms
proof (induction us arbitrary: w s)
  case Nil
  then show ?case by (simp add: absentRecords_def)
next
  case (Cons u us)
  let ?n = "\<lparr> na_session_id = sid, na_student_id = u, na_scanned_at = Some now,
                 na_status = ''absent'', na_minutes_late = None,
                 na_device_fingerprint = None, na_ip_address = None \<rparr>"
  from Cons.prems(2) have "(na_session_id ?n, na_student_id ?n) \<notin> set (map ar_key (attendance_records w))"
    by simp
  then obtain r w1 where ins: "insert_row ?n now w = Inr (r, w1)"
    by (auto simp: insert_row_def Let_def)
  note f = insert_row_Inr [OF ins]
  from insert_row_session [OF ins Cons.prems(3)] obtain s1 where
    s1: "class_sessions w1 sid = Some s1" "cs_class_instance_id s1 = cs_class_instance_id s"
        "cs_status s1 = cs_status s"
    by blast
  have d: "distinct us" using Cons.prems(1) by simp
  have fresh: "\<forall>v\<in>set us. (sid, v) \<notin> set (map ar_key (attendance_records w1))"
  proof
    fix v assume v: "v \<in> set us"
    then have "v \<noteq> u" using Cons.prems(1) by auto
    moreover have "(sid, v) \<notin> set (map ar_key (attendance_records w))"
      using Cons.prems(2) v by simp
    ultimately show "(sid, v) \<notin> set (map ar_key (attendance_records w1))"
      using f(1) f(2) by auto
  qed
  from Cons.IH [OF d fresh s1(1)] obtain w' new s' where
    ih: "insert_rows (absentRecords sid now us) now w1 = Inr w'"
        "attendance_records w' = attendance_records w1 @ new"
        "map ar_view new = map (\<lambda>u. (sid, u, ''absent'', 0, now)) us"
        "enrollments w' = enrollments w1"
        "class_sessions w' sid = Some s'"
        "cs_class_instance_id s' = cs_class_instance_id s1"
        "cs_status s' = cs_status s1"
    by blast
  have rv: "ar_view r = (sid, u, ''absent'', 0, now)"
    using f by (simp add: ar_view_def)
  have 1: "insert_rows (absentRecords sid now (u # us)) now w = Inr w'"
    using ins ih(1) by (simp add: absentRecords_def)
  have 2: "attendance_records w' = attendance_records w @ (r # new)"
    using ih(2) f(1) by simp
  have 3: "map ar_view (r # new) = map (\<lambda>u. (sid, u, ''absent'', 0, now)) (u # us)"
    using rv ih(3) by simp
  have 4: "enrollments w' = enrollments w" using ih(4) f(10) by simp
  show ?case
    using 1 2 3 4 ih(5) ih(6) ih(7) s1 by (intro exI [of _ w'] exI [of _ "r # new"] exI [of _ s']) simp
qed

lemma needing_fresh:
  "\<forall>u\<in>set (studentsNeedingRecords w sid c). (sid, u) \<notin> set (map ar_key (attendance_records w))"
  by (auto simp: studentsNeedingRecords_def Let_def records_of_session_def ar_key_def)

lemma needing_distinct:
  "distinct (map en_student_id (active_enrollments w c)) \<Longrightarrow> distinct (studentsNeedingRecords w sid c)"
  by (simp add: studentsNeedingRecords_def Let_def)

lemma reconciliation_result:
  assumes "distinct (map en_student_id (active_enrollments w c))"
      and "class_sessions w sid = Some s"
  shows "\<exists>w' new s'. reconciliation sid c now w = Inr w'
           \<and> attendance_records w' = attendance_records w @ new
           \<and> map ar_view new = map (\<lambda>u. (sid, u, ''absent'', 0, now)) (studentsNeedingRecords w sid c)
           \<and> enrollments w' = enrollments w
           \<and> class_sessions w' sid = Some s'
           \<and> cs_class_instance_id s' = cs_class_instance_id s
           \<and> cs_status s' = cs_status s"
proof (cases "studentsNeedingRecords w sid c = []")
  case True
  then show ?thesis using assms(2) by (simp add: reconciliation_def)
next
  case False
  then have "reconciliation sid c now w
             = insert_rows (absentRecords sid now (studentsNeedingRecords w sid c)) now w"
    by (simp add: reconciliation_def Let_def)
  with insert_rows_absent [OF needing_distinct [OF assms(1)] needing_fresh assms(2), of now]
  show ?thesis by simp
qed

lemma needing_after:
  assumes "attendance_records w' = attendance_records w @ new"
      and "map ar_view new = map (\<lambda>u. (sid, u, ''absent'', 0, now)) (studentsNeedingRecords w sid c)"
      and "enrollments w' = enrollments w"
  shows "studentsNeedingRecords w' sid c = []"
proof -
  let ?us = "studentsNeedingRecords w sid c"
  have "map fst (map ar_view new) = map fst (map (\<lambda>u. (sid, u, ''absent'', 0::int, now)) ?us)"
    by (simp only: assms(2))
  then have m1: "map ar_session_id new = map (\<lambda>u. sid) ?us"
    by (simp add: ar_view_def comp_def)
  have "map (fst \<circ> snd) (map ar_view new)
          = map (fst \<circ> snd) (map (\<lambda>u. (sid, u, ''absent'', 0::int, now)) ?us)"
    by (simp only: assms(2))
  then have m2: "map ar_student_id new = ?us"
    by (simp add: ar_view_def comp_def)
  have all: "\<forall>r\<in>set new. ar_session_id r = sid"
  proof
    fix r assume "r \<in> set new"
    then have "ar_session_id r \<in> set (map ar_session_id new)" by simp
    then show "ar_session_id r = sid" unfolding m1 by auto
  qed
  then have fl: "filter (\<lambda>r. ar_session_id r = sid) new = new" by (simp add: filter_id_conv)
  have "records_of_session w' sid = records_of_session w sid @ new"
    using assms(1) fl by (simp add: records_of_session_def)
  then have "map ar_student_id (records_of_session w' sid)
             = map ar_student_id (records_of_session w sid) @ ?us"
    using m2 by simp
  then have ex: "set (map ar_student_id (records_of_session w' sid))
            = set (map ar_student_id (records_of_session w sid)) \<union> set ?us"
    by (simp only: set_append)
  have cover: "\<forall>u\<in>set (map en_student_id (active_enrollments w c)).
          u \<in> set (map ar_student_id (records_of_session w' sid))"
  proof
    fix u assume u: "u \<in> set (map en_student_id (active_enrollments w c))"
    show "u \<in> set (map ar_student_id (records_of_session w' sid))"
    proof (cases "u \<in> set (map ar_student_id (records_of_session w sid))")
      case True
      then show ?thesis unfolding ex by blast
    next
      case False
      with u have "u \<in> set ?us" by (simp add: studentsNeedingRecords_def Let_def)
      then show ?thesis unfolding ex by blast
    qed
  qed
  have ae: "active_enrollments w' c = active_enrollments w c"
    using assms(3) by (simp add: active_enrollments_def)
  show ?thesis
    unfolding studentsNeedingRecords_def Let_def ae filter_empty_conv
    using cover by blast
qed

lemma missing_count:
  "length (filter (\<lambda>u. u \<notin> E) xs) = length xs - length (filter (\<lambda>u. u \<in> E) xs)"
  using sum_length_filter_compl [of "\<lambda>u. u \<in> E" xs] by simp

lemma with_record_count:
  assumes "distinct xs" and "distinct ys" and "set ys \<subseteq> set xs"
  shows "length (filter (\<lambda>u. u \<in> set ys) xs) = length ys"
proof -
  have "set (filter (\<lambda>u. u \<in> set ys) xs) = set ys" using assms(3) by auto
  moreover have "distinct (filter (\<lambda>u. u \<in> set ys) xs)" using assms(1) by simp
  ultimately have "length (filter (\<lambda>u. u \<in> set ys) xs) = card (set ys)"
    by (metis distinct_card)
  then show ?thesis using assms(2) by (simp add: distinct_card)
qed

lemma session_students_distinct:
  "distinct (map ar_key rs) \<Longrightarrow>
   distinct (map ar_student_id (filter (\<lambda>r. ar_session_id r = sid) rs))"
proof (induction rs)
  case Nil
  then show ?case by simp
next
  case (Cons a rs)
  show ?case
  proof (cases "ar_session_id a = sid")
    case True
    have "ar_student_id a \<notin> ar_student_id ` set (filter (\<lambda>r. ar_session_id r = sid) rs)"
    proof
      assume "ar_student_id a \<in> ar_student_id ` set (filter (\<lambda>r. ar_session_id r = sid) rs)"
      then obtain r where "r \<in> set rs" "ar_session_id r = sid" "ar_student_id r = ar_student_id a"
        by auto
      then have "ar_key a \<in> ar_key ` set rs" using True by (force simp: ar_key_def)
      then show False using Cons.prems by simp
    qed
    then show ?thesis using True Cons by simp
  next
    case False
    then show ?thesis using Cons by simp
  qed
qed

lemma insert_row_frame:
  assumes "insert_row n now w = Inr (r, w')"
  shows "activeRotations w' = activeRotations w \<and> intervals w' = intervals w
       \<and> next_handle w' = next_handle w \<and> timeouts w' = timeouts w
       \<and> emitted w' = emitted w \<and> notifications w' = notifications w
       \<and> students w' = students w \<and> enrollments w' = enrollments w"
  using assms
  by (auto simp: insert_row_def Let_def update_session_attendance_count_def split: if_splits)

lemma insert_rows_frame:
  "insert_rows ns now w = Inr w' \<Longrightarrow>
     activeRotations w' = activeRotations w \<and> intervals w' = intervals w
       \<and> next_handle w' = next_handle w \<and> timeouts w' = timeouts w
       \<and> emitted w' = emitted w \<and> notifications w' = notifications w
       \<and> students w' = students w \<and> enrollments w' = enrollments w"
proof (induction ns arbitrary: w)
  case Nil
  then show ?case by simp
next
  case (Cons n ns)
  from Cons.prems obtain r w1 where 1: "insert_row n now w = Inr (r, w1)"
    and 2: "insert_rows ns now w1 = Inr w'"
    by (auto split: sum.splits)
  from insert_row_frame [OF 1] Cons.IH [OF 2] show ?case by simp
qed

lemma reconciliation_frame:
  "reconciliation sid c now w = Inr w' \<Longrightarrow>
     activeRotations w' = activeRotations w \<and> intervals w' = intervals w
       \<and> next_handle w' = next_handle w \<and> timeouts w' = timeouts w
       \<and> emitted w' = emitted w \<and> notifications w' = notifications w
       \<and> students w' = students w \<and> enrollments w' = enrollments w"
  using insert_rows_frame [of _ now w w']
  by (auto simp: reconciliation_def Let_def split: if_splits)

lemma stop_not_registered [simp]:
  "activeRotations (stopQRCodeRotation sid w) sid = None"
  by (simp add: stopQRCodeRotation_def split: option.splits)

lemma needing_depends:
  "enrollments w1 = enrollments w \<Longrightarrow> attendance_records w1 = attendance_records w \<Longrightarrow>
   studentsNeedingRecords w1 sid c = studentsNeedingRecords w sid c"
  by (simp add: studentsNeedingRecords_def active_enrollments_def records_of_session_def)

lemma complete_result:
  assumes "distinct (map en_student_id (active_enrollments w (cs_class_instance_id session)))"
      and "class_sessions w sid = Some session"
  shows "\<exists>new s'. attendance_records (snd (complete e sid now w)) = attendance_records w @ new
           \<and> map ar_view new = map (\<lambda>u. (sid, u, ''absent'', 0, now))
                 (studentsNeedingRecords w sid (cs_class_instance_id session))
           \<and> enrollments (snd (complete e sid now w)) = enrollments w
           \<and> class_sessions (snd (complete e sid now w)) sid = Some s'
           \<and> cs_class_instance_id s' = cs_class_instance_id session
           \<and> cs_status s' = ''completed'' \<and> \<not> cs_is_active s' \<and> cs_qr_expires_at s' = None
           \<and> fst (complete e sid now w) = Session_ok s' None"
proof -
  let ?c = "cs_class_instance_id session"
  let ?w1 = "stopQRCodeRotation sid w"
  have d1: "distinct (map en_student_id (active_enrollments ?w1 ?c))"
    using assms(1) by (simp add: active_enrollments_def)
  have s1: "class_sessions ?w1 sid = Some session" using assms(2) by simp
  from reconciliation_result [OF d1 s1, of now] obtain w2 new s2 where
    r: "reconciliation sid ?c now ?w1 = Inr w2"
       "attendance_records w2 = attendance_records ?w1 @ new"
       "map ar_view new = map (\<lambda>u. (sid, u, ''absent'', 0, now)) (studentsNeedingRecords ?w1 sid ?c)"
       "enrollments w2 = enrollments ?w1"
       "class_sessions w2 sid = Some s2"
       "cs_class_instance_id s2 = ?c"
    by blast
  have n: "studentsNeedingRecords ?w1 sid ?c = studentsNeedingRecords w sid ?c"
    by (rule needing_depends) simp_all
  have c: "complete e sid now w
           = (Session_ok (mark_completed s2) None,
              emit e (completion_events sid) (update_session sid mark_completed w2))"
    using s1 r(1) r(5) by (simp add: complete_def Let_def)
  show ?thesis
    apply (rule exI [of _ new], rule exI [of _ "mark_completed s2"])
    using r n by (simp add: c update_session_sessions mark_completed_def)
qed

lemma auto_result:
  assumes "distinct (map en_student_id (active_enrollments w (cs_class_instance_id session)))"
      and "class_sessions w sid = Some session" and "cs_status session = ''active''"
  shows "\<exists>new s'. attendance_records (snd (completeSessionAutomatically e sid now w))
               = attendance_records w @ new
           \<and> map ar_view new = map (\<lambda>u. (sid, u, ''absent'', 0, now))
                 (studentsNeedingRecords w sid (cs_class_instance_id session))
           \<and> class_sessions (snd (completeSessionAutomatically e sid now w)) sid = Some s'
           \<and> cs_status s' = ''completed'' \<and> \<not> cs_is_active s' \<and> cs_qr_expires_at s' = None
           \<and> fst (completeSessionAutomatically e sid now w) = None
           \<and> activeRotations (snd (completeSessionAutomatically e sid now w)) sid = None"
proof -
  let ?c = "cs_class_instance_id session"
  let ?w1 = "stopQRCodeRotation sid w"
  have d1: "distinct (map en_student_id (active_enrollments ?w1 ?c))"
    using assms(1) by (simp add: active_enrollments_def)
  have s1: "class_sessions ?w1 sid = Some session" using assms(2) by simp
  from reconciliation_result [OF d1 s1, of now] obtain w2 new s2 where
    r: "reconciliation sid ?c now ?w1 = Inr w2"
       "attendance_records w2 = attendance_records ?w1 @ new"
       "map ar_view new = map (\<lambda>u. (sid, u, ''absent'', 0, now)) (studentsNeedingRecords ?w1 sid ?c)"
       "enrollments w2 = enrollments ?w1"
       "class_sessions w2 sid = Some s2"
       "cs_class_instance_id s2 = ?c"
    by blast
  have n: "studentsNeedingRecords ?w1 sid ?c = studentsNeedingRecords w sid ?c"
    by (rule needing_depends) simp_all
  have a: "session_with_status w sid ''active'' = Some session"
    using assms(2,3) by (simp add: session_with_status_def)
  have c: "completeSessionAutomatically e sid now w
           = (None, emit e (completion_events sid) (update_session sid mark_completed w2))"
    using a r(1) by (simp add: completeSessionAutomatically_def Let_def)
  have rot: "activeRotations w2 sid = None"
    using reconciliation_frame [OF r(1)] by simp
  show ?thesis
    apply (rule exI [of _ new], rule exI [of _ "mark_completed s2"])
    using r n rot by (simp add: c update_session_sessions mark_completed_def)
qed

lemma example_active3_eq:
  "example_active3 =
     example_active \<lparr> students := students example_world3, enrollments := enrollments example_world3 \<rparr>"
  by (simp add: example_active_eq)
     (simp add: example_active3_def activate_def session_with_status_def example_active_session_def
      example_env_def example_session_def example_world_def example_world3_def Let_def
      generateSecureQR_def QR_EXPIRY_SECONDS_def signed_data_def show_int_ex update_session_def
      startQRCodeRotation_def notifyStudentsSessionActivated_def active_enrollments_def emit_def
      or_null_def)

lemma example_scanned3_eq:
  assumes "0 < t"
  shows "attendance_records (example_scanned3 t) =
           [\<lparr>ar_id = 0, ar_session_id = ''s1'', ar_student_id = ''u3'',
               ar_scanned_at = t,
               ar_status = (if 5 < (t - 1704708000000) div 60000 then ''late'' else ''present''),
               ar_minutes_late = (if 5 < (t - 1704708000000) div 60000
                                  then (t - 1704708000000) div 60000 else 0),
               ar_device_fingerprint = Some ''Mozilla/5.0'',
               ar_ip_address = Some ''10.0.0.7''\<rparr>]"
    and "enrollments (example_scanned3 t) = enrollments example_world3"
    and "class_sessions (example_scanned3 t) ''s1''
           = Some (example_active_session \<lparr>cs_attendance_count := 1\<rparr>)"
proof -
  let ?c = "\<lparr>sx_sessionId = ''s1'', sx_session = example_active_session, sx_user_id = ''u3''\<rparr>"
  have ch: "scan_checks example_env (example_request3 t) t t example_active3 = Inr ?c"
    using example_token_valid [of 0 t] assms
    by (simp add: scan_checks_def example_active3_eq example_active_eq example_request_def
       example_request3_def example_world3_def
       session_with_status_def single_def existingAttendance_def example_world_def
       example_session_def example_active_session_def)
  have "example_scanned3 t = snd (scan_record example_env (example_request3 t) t ?c example_active3)"
    by (simp add: example_scanned3_def scan_def ch)
  also have "\<dots> = example_active3
      \<lparr> class_sessions := [''s1'' \<mapsto> example_active_session \<lparr>cs_attendance_count := 1\<rparr>],
        attendance_records :=
           [\<lparr>ar_id = 0, ar_session_id = ''s1'', ar_student_id = ''u3'',
               ar_scanned_at = t,
               ar_status = (if 5 < (t - 1704708000000) div 60000 then ''late'' else ''present''),
               ar_minutes_late = (if 5 < (t - 1704708000000) div 60000
                                  then (t - 1704708000000) div 60000 else 0),
               ar_device_fingerprint = Some ''Mozilla/5.0'',
               ar_ip_address = Some ''10.0.0.7''\<rparr>],
        notifications := notifications example_active3 @
            [\<lparr>nt_user_id = ''u3'', nt_type = ''attendance_recorded'',
               nt_title = ''Attendance recorded successfully!'',
               nt_session_id = Some ''s1''\<rparr>],
        next_id := Suc 0,
        emitted := emitted example_active3 @
           [Emit (Session_room ''s1'') ''attendance_update''
             (Attendance_payload ''s1'' ''5002380''
               (if 5 < (t - 1704708000000) div 60000 then ''late'' else ''present'') t
               (Suc 0) (Suc 0)),
            Emit (Professor_room ''c1'') ''dashboard-attendance-update''
             (Dashboard_payload ''s1'' (Suc 0) (Suc 0))] \<rparr>"
    by (simp add: scan_record_def Let_def minutesLate_def isLate_def insert_row_def
       example_active3_eq example_active_eq example_request_def example_request3_def
       example_env_def example_session_def example_active_session_def
       update_session_attendance_count_def update_session_def records_of_session_def emit_def
       attended_def)
  finally have eq: "example_scanned3 t = \<dots>" .
  show "attendance_records (example_scanned3 t) =
           [\<lparr>ar_id = 0, ar_session_id = ''s1'', ar_student_id = ''u3'',
               ar_scanned_at = t,
               ar_status = (if 5 < (t - 1704708000000) div 60000 then ''late'' else ''present''),
               ar_minutes_late = (if 5 < (t - 1704708000000) div 60000
                                  then (t - 1704708000000) div 60000 else 0),
               ar_device_fingerprint = Some ''Mozilla/5.0'',
               ar_ip_address = Some ''10.0.0.7''\<rparr>]"
    by (simp add: eq)
  show "enrollments (example_scanned3 t) = enrollments example_world3"
    by (simp add: eq example_active3_eq)
  show "class_sessions (example_scanned3 t) ''s1''
           = Some (example_active_session \<lparr>cs_attendance_count := 1\<rparr>)"
    by (simp add: eq)
qed

lemma auto_same_records:
  assumes "class_sessions w sid = Some session" and "cs_status session = ''active''"
  shows "attendance_records (snd (completeSessionAutomatically e sid now w))
         = attendance_records (snd (complete e sid now w))"
proof -
  have a: "session_with_status w sid ''active'' = Some session"
    using assms by (simp add: session_with_status_def)
  show ?thesis
    using assms(1)
    by (simp add: completeSessionAutomatically_def complete_def a Let_def
             split: sum.splits option.splits)
qed

text \<open>
  C6 (as the code has it). Completing a session, by the endpoint or by the timeout,
  appends one \<^verbatim>\<open>absent\<close> record, with \<^verbatim>\<open>minutes_late\<close> 0 and the completion time,
  for every actively enrolled student of the class who has no record of the session, and
  nothing else: with \<open>N\<close> enrolled students, that is \<open>N\<close> minus the number of enrolled
  students who have a record. That number is the number \<open>K\<close> of records of the session
  when every record belongs to an enrolled student. No existing record is duplicated or
  changed, and a second completion inserts nothing.
\<close>

theorem reconciliation_complete:
  assumes "unique_attendance w"
      and "class_sessions w sid = Some session"
      and "distinct (map en_student_id (active_enrollments w (cs_class_instance_id session)))"
  shows "let c = cs_class_instance_id session;
             enrolled = map en_student_id (active_enrollments w c);
             existing = map ar_student_id (records_of_session w sid);
             missing = filter (\<lambda>u. u \<notin> set existing) enrolled;
             w' = snd (complete e sid now w)
         in (\<exists>new. attendance_records w' = attendance_records w @ new
                \<and> map ar_view new = map (\<lambda>u. (sid, u, ''absent'', 0, now)) missing)
          \<and> length (attendance_records w') = length (attendance_records w) + length missing
          \<and> length missing = length enrolled - length (filter (\<lambda>u. u \<in> set existing) enrolled)
          \<and> (set existing \<subseteq> set enrolled \<longrightarrow> length missing = length enrolled - length existing)
          \<and> unique_attendance w'
          \<and> attendance_records (snd (complete e sid later w')) = attendance_records w'
          \<and> (cs_status session = ''active'' \<longrightarrow>
               attendance_records (snd (completeSessionAutomatically e sid now w))
                 = attendance_records w')"
proof -
  let ?c = "cs_class_instance_id session"
  let ?enrolled = "map en_student_id (active_enrollments w ?c)"
  let ?existing = "map ar_student_id (records_of_session w sid)"
  let ?missing = "filter (\<lambda>u. u \<notin> set ?existing) ?enrolled"
  let ?w' = "snd (complete e sid now w)"
  have mis: "studentsNeedingRecords w sid ?c = ?missing"
    by (simp add: studentsNeedingRecords_def Let_def)
  from complete_result [OF assms(3) assms(2), of e now] obtain new s' where
    r: "attendance_records ?w' = attendance_records w @ new"
       "map ar_view new = map (\<lambda>u. (sid, u, ''absent'', 0, now)) (studentsNeedingRecords w sid ?c)"
       "enrollments ?w' = enrollments w"
       "class_sessions ?w' sid = Some s'"
       "cs_class_instance_id s' = ?c"
    by blast
  have 1: "\<exists>new. attendance_records ?w' = attendance_records w @ new
                \<and> map ar_view new = map (\<lambda>u. (sid, u, ''absent'', 0, now)) ?missing"
    using r(1) r(2) mis by auto
  have "length (map ar_view new) = length ?missing" using r(2) mis by simp
  then have ln: "length new = length ?missing" by simp
  have 2: "length (attendance_records ?w') = length (attendance_records w) + length ?missing"
    using r(1) ln by simp
  have 3: "length ?missing = length ?enrolled - length (filter (\<lambda>u. u \<in> set ?existing) ?enrolled)"
    by (rule missing_count)
  have dex: "distinct ?existing"
    using assms(1) session_students_distinct [of "attendance_records w" sid]
    by (simp add: unique_attendance_def records_of_session_def)
  have 4: "set ?existing \<subseteq> set ?enrolled \<longrightarrow> length ?missing = length ?enrolled - length ?existing"
    using 3 with_record_count [OF assms(3) dex] by simp
  have 5: "unique_attendance ?w'" by (rule complete_unique [OF assms(1)])
  have d': "distinct (map en_student_id (active_enrollments ?w' (cs_class_instance_id s')))"
    using assms(3) r(3) r(5) by (simp add: active_enrollments_def)
  from complete_result [OF d' r(4), of e later] obtain new2 where
    r2: "attendance_records (snd (complete e sid later ?w')) = attendance_records ?w' @ new2"
        "map ar_view new2 = map (\<lambda>u. (sid, u, ''absent'', 0, later))
                 (studentsNeedingRecords ?w' sid (cs_class_instance_id s'))"
    by blast
  have "studentsNeedingRecords ?w' sid ?c = []"
    by (rule needing_after [OF r(1) r(2) r(3)])
  with r2(2) r(5) have "new2 = []" by simp
  with r2(1) have 6: "attendance_records (snd (complete e sid later ?w')) = attendance_records ?w'"
    by simp
  have 7: "cs_status session = ''active'' \<longrightarrow>
               attendance_records (snd (completeSessionAutomatically e sid now w))
                 = attendance_records ?w'"
    using auto_same_records [OF assms(2)] by blast
  show ?thesis
    unfolding Let_def using 1 2 3 4 5 6 7 by blast
qed

theorem reconciliation_complete_witness:
  "(\<exists>new. attendance_records (snd (complete example_env ''s1'' 1704711600000
                                      (example_scanned 1704708120000)))
             = attendance_records (example_scanned 1704708120000) @ new
          \<and> map ar_view new = [(''s1'', ''u2'', ''absent'', 0, 1704711600000)])
   \<and> length (attendance_records (snd (complete example_env ''s1'' 1704711600000
                                         (example_scanned 1704708120000)))) = 2
   \<and> attendance_records
        (snd (complete example_env ''s1'' 1704711601000
               (snd (complete example_env ''s1'' 1704711600000 (example_scanned 1704708120000)))))
      = attendance_records (snd (complete example_env ''s1'' 1704711600000
                                   (example_scanned 1704708120000)))"
proof -
  let ?w = "example_scanned 1704708120000"
  let ?s = "example_active_session \<lparr>cs_attendance_count := 1\<rparr>"
  have c1: "cs_class_instance_id ?s = ''c1''"
    by (simp add: example_active_session_def example_session_def)
  have u: "unique_attendance ?w"
    by (simp add: unique_attendance_def example_scanned_2min)
  have cs: "class_sessions ?w ''s1'' = Some ?s"
    by (simp add: example_scanned_2min)
  have en: "map en_student_id (active_enrollments ?w ''c1'') = [''u1'', ''u2'']"
    by (simp add: active_enrollments_def example_scanned_2min example_world_def)
  have ex: "map ar_student_id (records_of_session ?w ''s1'') = [''u1'']"
    by (simp add: records_of_session_def example_scanned_2min)
  have d: "distinct (map en_student_id (active_enrollments ?w (cs_class_instance_id ?s)))"
    by (simp add: c1 en)
  have ae: "active_enrollments ?w ''c1''
              = [\<lparr> en_student_id = ''u1'', en_class_instance_id = ''c1'', en_status = ''active'' \<rparr>,
                 \<lparr> en_student_id = ''u2'', en_class_instance_id = ''c1'', en_status = ''active'' \<rparr>]"
    by (simp add: active_enrollments_def example_scanned_2min example_world_def)
  note th = reconciliation_complete [OF u cs d, where e = example_env and now = 1704711600000
      and later = 1704711601000]
  from th show ?thesis
    by (simp add: Let_def c1 ae ex example_scanned_2min)
qed

text \<open>
  The third student, whose enrollment is \<^verbatim>\<open>dropped\<close>, has scanned (the scan endpoint
  asks for an enrollment of any status), the two actively enrolled students have not:
  \<open>N = 2\<close> and \<open>K = 1\<close>, and completion inserts two records, not \<open>N - K = 1\<close>.
\<close>

theorem reconciliation_complete_counterexample:
  "length (active_enrollments (example_scanned3 1704708120000) ''c1'') = 2
   \<and> length (records_of_session (example_scanned3 1704708120000) ''s1'') = 1
   \<and> length (attendance_records
               (snd (complete example_env ''s1'' 1704711600000 (example_scanned3 1704708120000))))
      = length (attendance_records (example_scanned3 1704708120000)) + 2"
proof -
  let ?w = "example_scanned3 1704708120000"
  let ?s = "example_active_session \<lparr>cs_attendance_count := 1\<rparr>"
  have pos: "(0::int) < 1704708120000" by simp
  note f = example_scanned3_eq [OF pos]
  have c1: "cs_class_instance_id ?s = ''c1''"
    by (simp add: example_active_session_def example_session_def)
  have en: "map en_student_id (active_enrollments ?w ''c1'') = [''u1'', ''u2'']"
    by (simp add: active_enrollments_def f example_world3_def example_world_def)
  have ex: "map ar_student_id (records_of_session ?w ''s1'') = [''u3'']"
    by (simp add: records_of_session_def f)
  have d: "distinct (map en_student_id (active_enrollments ?w (cs_class_instance_id ?s)))"
    by (simp add: c1 en)
  have need: "studentsNeedingRecords ?w ''s1'' ''c1'' = [''u1'', ''u2'']"
    by (simp add: studentsNeedingRecords_def Let_def en ex)
  from complete_result [OF d f(3), of example_env 1704711600000] obtain new where
    n: "attendance_records (snd (complete example_env ''s1'' 1704711600000 ?w))
          = attendance_records ?w @ new"
       "map ar_view new = map (\<lambda>u. (''s1'', u, ''absent'', 0, 1704711600000))
                            (studentsNeedingRecords ?w ''s1'' (cs_class_instance_id ?s))"
    by blast
  from n(2) have "length (map ar_view new) = 2" by (simp add: c1 need)
  then have "length new = 2" by simp
  with n(1) have 3: "length (attendance_records
               (snd (complete example_env ''s1'' 1704711600000 ?w)))
      = length (attendance_records ?w) + 2" by simp
  have 1: "length (active_enrollments ?w ''c1'') = 2"
    using arg_cong [OF en, of length] by simp
  have 2: "length (records_of_session ?w ''s1'') = 1"
    using arg_cong [OF ex, of length] by simp
  from 1 2 3 show ?thesis by blast
qed

section \<open>The hard timeout\<close>

lemma auto_noop:
  "session_with_status w sid ''active'' = None \<Longrightarrow>
   completeSessionAutomatically e sid now w = (None, w)"
  by (simp add: completeSessionAutomatically_def)

lemma auto_rotation:
  assumes "distinct (map en_student_id (active_enrollments w (cs_class_instance_id session)))"
      and "class_sessions w sid = Some session" and "cs_status session = ''active''"
  shows "intervals (snd (completeSessionAutomatically e sid now w)) = intervals (stopQRCodeRotation sid w)
       \<and> activeRotations (snd (completeSessionAutomatically e sid now w))
           = activeRotations (stopQRCodeRotation sid w)
       \<and> timeouts (snd (completeSessionAutomatically e sid now w)) = timeouts w
       \<and> emitted (snd (completeSessionAutomatically e sid now w))
           = (if io e then emitted w @ completion_events sid else emitted w)"
proof -
  let ?c = "cs_class_instance_id session"
  let ?w1 = "stopQRCodeRotation sid w"
  have d1: "distinct (map en_student_id (active_enrollments ?w1 ?c))"
    using assms(1) by (simp add: active_enrollments_def)
  have s1: "class_sessions ?w1 sid = Some session" using assms(2) by simp
  from reconciliation_result [OF d1 s1, of now] obtain w2 where
    r: "reconciliation sid ?c now ?w1 = Inr w2"
    by blast
  have a: "session_with_status w sid ''active'' = Some session"
    using assms(2,3) by (simp add: session_with_status_def)
  have c: "completeSessionAutomatically e sid now w
           = (None, emit e (completion_events sid) (update_session sid mark_completed w2))"
    using a r by (simp add: completeSessionAutomatically_def Let_def)
  show ?thesis
    using reconciliation_frame [OF r] by (simp add: c emit_def)
qed

lemma activate_registers_timeout:
  "session_with_status w sid ''scheduled'' = Some session \<Longrightarrow>
   timeouts (snd (activate e sid nts now nc sec w)) = timeouts w @ [sid]"
  by (simp add: activate_def Let_def notifyStudentsSessionActivated_def split: option.splits)

text \<open>
  C7 (as the code has it). The callback registered by \<^verbatim>\<open>activate\<close> completes the session
  when its status is still \<^verbatim>\<open>active\<close>: the registered rotation timer is cleared,
  reconciliation runs as in a manual completion, and the row becomes \<^verbatim>\<open>completed\<close>,
  not active, without expiry. In every other case (no such session, or a status other
  than \<^verbatim>\<open>active\<close>: paused, completed, cancelled, scheduled) it throws nothing and leaves
  the state as it is; in particular after a manual completion, and when it fires a
  second time.
\<close>

theorem timeout_callback_effect:
  "(session_with_status w sid ''active'' = None \<longrightarrow>
      completeSessionAutomatically e sid now w = (None, w) \<and> timeout_callback e sid now w = w)
   \<and> (class_sessions w sid = Some session \<and> cs_status session = ''active''
        \<and> distinct (map en_student_id (active_enrollments w (cs_class_instance_id session))) \<longrightarrow>
      fst (completeSessionAutomatically e sid now w) = None
      \<and> (\<exists>s'. class_sessions (timeout_callback e sid now w) sid = Some s'
             \<and> cs_status s' = ''completed'' \<and> \<not> cs_is_active s' \<and> cs_qr_expires_at s' = None)
      \<and> activeRotations (timeout_callback e sid now w) sid = None
      \<and> intervals (timeout_callback e sid now w) = intervals (stopQRCodeRotation sid w)
      \<and> (\<exists>new. attendance_records (timeout_callback e sid now w) = attendance_records w @ new
             \<and> map ar_view new = map (\<lambda>u. (sid, u, ''absent'', 0, now))
                   (studentsNeedingRecords w sid (cs_class_instance_id session)))
      \<and> attendance_records (timeout_callback e sid now w)
           = attendance_records (snd (complete e sid now w))
      \<and> timeout_callback e sid later (timeout_callback e sid now w) = timeout_callback e sid now w)
   \<and> (class_sessions w sid = Some session
        \<and> distinct (map en_student_id (active_enrollments w (cs_class_instance_id session))) \<longrightarrow>
      completeSessionAutomatically e sid later (snd (complete e sid now w))
        = (None, snd (complete e sid now w)))
   \<and> (session_with_status w sid ''scheduled'' = Some session \<longrightarrow>
      sid \<in> set (timeouts (snd (activate e sid nts now nc sec w))))"
proof (intro conjI impI)
  assume "session_with_status w sid ''active'' = None"
  then show "completeSessionAutomatically e sid now w = (None, w)" by (rule auto_noop)
  then show "timeout_callback e sid now w = w" by (simp add: timeout_callback_def)
next
  assume a: "class_sessions w sid = Some session \<and> cs_status session = ''active''
        \<and> distinct (map en_student_id (active_enrollments w (cs_class_instance_id session)))"
  then have s: "class_sessions w sid = Some session" and st: "cs_status session = ''active''"
    and d: "distinct (map en_student_id (active_enrollments w (cs_class_instance_id session)))"
    by simp_all
  from auto_result [OF d s st, of e now] obtain new s' where
    r: "attendance_records (snd (completeSessionAutomatically e sid now w)) = attendance_records w @ new"
       "map ar_view new = map (\<lambda>u. (sid, u, ''absent'', 0, now))
                 (studentsNeedingRecords w sid (cs_class_instance_id session))"
       "class_sessions (snd (completeSessionAutomatically e sid now w)) sid = Some s'"
       "cs_status s' = ''completed''" "\<not> cs_is_active s'" "cs_qr_expires_at s' = None"
       "fst (completeSessionAutomatically e sid now w) = None"
       "activeRotations (snd (completeSessionAutomatically e sid now w)) sid = None"
    by blast
  show "fst (completeSessionAutomatically e sid now w) = None" by (rule r(7))
  show "\<exists>s'. class_sessions (timeout_callback e sid now w) sid = Some s'
             \<and> cs_status s' = ''completed'' \<and> \<not> cs_is_active s' \<and> cs_qr_expires_at s' = None"
    using r(3-6) by (simp add: timeout_callback_def)
  show "activeRotations (timeout_callback e sid now w) sid = None"
    using r(8) by (simp add: timeout_callback_def)
  show "intervals (timeout_callback e sid now w) = intervals (stopQRCodeRotation sid w)"
    using auto_rotation [OF d s st, of e now] by (simp add: timeout_callback_def)
  show "\<exists>new. attendance_records (timeout_callback e sid now w) = attendance_records w @ new
             \<and> map ar_view new = map (\<lambda>u. (sid, u, ''absent'', 0, now))
                   (studentsNeedingRecords w sid (cs_class_instance_id session))"
    using r(1,2) by (auto simp: timeout_callback_def)
  show "attendance_records (timeout_callback e sid now w)
           = attendance_records (snd (complete e sid now w))"
    using auto_same_records [OF s st, of e now] by (simp add: timeout_callback_def)
  have "session_with_status (timeout_callback e sid now w) sid ''active'' = None"
    using r(3,4) by (simp add: timeout_callback_def session_with_status_def)
  from auto_noop [OF this, of e later]
  show "timeout_callback e sid later (timeout_callback e sid now w) = timeout_callback e sid now w"
    by (simp add: timeout_callback_def)
next
  assume a: "class_sessions w sid = Some session
        \<and> distinct (map en_student_id (active_enrollments w (cs_class_instance_id session)))"
  then have s: "class_sessions w sid = Some session"
    and d: "distinct (map en_student_id (active_enrollments w (cs_class_instance_id session)))"
    by simp_all
  from complete_result [OF d s, of e now] obtain s' where
    "class_sessions (snd (complete e sid now w)) sid = Some s'" "cs_status s' = ''completed''"
    by blast
  then have "session_with_status (snd (complete e sid now w)) sid ''active'' = None"
    by (simp add: session_with_status_def)
  then show "completeSessionAutomatically e sid later (snd (complete e sid now w))
        = (None, snd (complete e sid now w))"
    by (rule auto_noop)
next
  assume "session_with_status w sid ''scheduled'' = Some session"
  from activate_registers_timeout [OF this, of e nts now nc sec]
  show "sid \<in> set (timeouts (snd (activate e sid nts now nc sec w)))" by simp
qed

lemma example_scanned_timers:
  "intervals (example_scanned 1704708120000) = [(0, ''s1'')]"
  "activeRotations (example_scanned 1704708120000) = [''s1'' \<mapsto> 0]"
  by (simp_all add: example_scanned_def example_scan) (simp_all add: example_active_eq)

lemma example_scanned_needing:
  "studentsNeedingRecords (example_scanned 1704708120000) ''s1'' ''c1'' = [''u2'']"
  by (simp add: studentsNeedingRecords_def Let_def active_enrollments_def records_of_session_def
        example_scanned_2min example_world_def)

lemma example_paused_session:
  "class_sessions example_paused ''s1''
     = Some (example_active_session \<lparr> cs_status := ''paused'', cs_is_active := False,
                                        cs_qr_expires_at := None \<rparr>)"
  by (simp add: example_paused_def pause_def session_with_status_def example_active_eq
        example_active_session_def Let_def update_session_def stopQRCodeRotation_def)

theorem timeout_callback_effect_witness:
  "timeout_callback example_env ''s1'' 1704711600000 example_world = example_world
   \<and> (\<exists>s'. class_sessions (timeout_callback example_env ''s1'' 1704711600000
                               (example_scanned 1704708120000)) ''s1'' = Some s'
          \<and> cs_status s' = ''completed'' \<and> \<not> cs_is_active s' \<and> cs_qr_expires_at s' = None)
   \<and> intervals (timeout_callback example_env ''s1'' 1704711600000 (example_scanned 1704708120000)) = []
   \<and> (\<exists>new. attendance_records (timeout_callback example_env ''s1'' 1704711600000
                                    (example_scanned 1704708120000))
               = attendance_records (example_scanned 1704708120000) @ new
          \<and> map ar_view new = [(''s1'', ''u2'', ''absent'', 0, 1704711600000)])
   \<and> completeSessionAutomatically example_env ''s1'' 1704711601000
        (snd (complete example_env ''s1'' 1704711600000 (example_scanned 1704708120000)))
      = (None, snd (complete example_env ''s1'' 1704711600000 (example_scanned 1704708120000)))
   \<and> ''s1'' \<in> set (timeouts (snd (activate example_env ''s1'' None 1704708000000 ''a1'' ''b1''
                                     example_world)))"
proof -
  let ?w = "example_scanned 1704708120000"
  let ?s = "example_active_session \<lparr>cs_attendance_count := 1\<rparr>"
  have c1: "cs_class_instance_id ?s = ''c1''" and st: "cs_status ?s = ''active''"
    by (simp_all add: example_active_session_def example_session_def)
  have cs: "class_sessions ?w ''s1'' = Some ?s"
    by (simp add: example_scanned_2min)
  have d: "distinct (map en_student_id (active_enrollments ?w (cs_class_instance_id ?s)))"
    by (simp add: c1 active_enrollments_def example_scanned_2min example_world_def)
  have stop: "intervals (stopQRCodeRotation ''s1'' ?w) = []"
    by (simp add: stopQRCodeRotation_def example_scanned_timers)
  have n0: "session_with_status example_world ''s1'' ''active'' = None"
    and sch: "session_with_status example_world ''s1'' ''scheduled'' = Some example_session"
    by (simp_all add: session_with_status_def example_world_def example_session_def)
  note a = timeout_callback_effect [where w = example_world and sid = "''s1''"
      and e = example_env and now = 1704711600000 and session = example_session
      and nts = None and nc = "''a1''" and sec = "''b1''"]
  note b = timeout_callback_effect [where w = ?w and sid = "''s1''" and e = example_env
      and now = 1704711600000 and later = 1704711601000 and session = ?s]
  note 1 = a [THEN conjunct1, THEN mp, OF n0, THEN conjunct2]
  from b cs st d have 2: "\<exists>s'. class_sessions (timeout_callback example_env ''s1'' 1704711600000 ?w) ''s1'' = Some s'
          \<and> cs_status s' = ''completed'' \<and> \<not> cs_is_active s' \<and> cs_qr_expires_at s' = None"
    by blast
  from b cs st d have "intervals (timeout_callback example_env ''s1'' 1704711600000 ?w)
        = intervals (stopQRCodeRotation ''s1'' ?w)"
    by blast
  with stop have 3: "intervals (timeout_callback example_env ''s1'' 1704711600000 ?w) = []"
    by simp
  from b cs st d have "\<exists>new. attendance_records (timeout_callback example_env ''s1'' 1704711600000 ?w)
               = attendance_records ?w @ new
          \<and> map ar_view new = map (\<lambda>u. (''s1'', u, ''absent'', 0, 1704711600000))
                   (studentsNeedingRecords ?w ''s1'' (cs_class_instance_id ?s))"
    by blast
  then have 4: "\<exists>new. attendance_records (timeout_callback example_env ''s1'' 1704711600000 ?w)
               = attendance_records ?w @ new
          \<and> map ar_view new = [(''s1'', ''u2'', ''absent'', 0, 1704711600000)]"
    by (simp add: c1 example_scanned_needing)
  from b cs d have 5: "completeSessionAutomatically example_env ''s1'' 1704711601000
        (snd (complete example_env ''s1'' 1704711600000 ?w))
      = (None, snd (complete example_env ''s1'' 1704711600000 ?w))"
    by blast
  note c = timeout_callback_effect [where w = example_world and sid = "''s1''"
      and e = example_env and now = 1704708000000 and session = example_session
      and nts = None and nc = "''a1''" and sec = "''b1''"]
  note 6 = c [THEN conjunct2, THEN conjunct2, THEN conjunct2, THEN mp, OF sch]
  from 1 2 3 4 5 6 show ?thesis by blast
qed

text \<open>
  The session is paused when the callback fires: nothing happens, and the session stays
  paused. The specification has it completed.
\<close>

theorem timeout_callback_effect_counterexample:
  "timeout_callback example_env ''s1'' 1704711600000 example_paused = example_paused
   \<and> map_option cs_status (class_sessions example_paused ''s1'') = Some ''paused''
   \<and> attendance_records (timeout_callback example_env ''s1'' 1704711600000 example_paused) = []"
proof -
  have "session_with_status example_paused ''s1'' ''active'' = None"
    by (simp add: session_with_status_def example_paused_session)
  from auto_noop [OF this, of example_env 1704711600000]
  have 1: "timeout_callback example_env ''s1'' 1704711600000 example_paused = example_paused"
    by (simp add: timeout_callback_def)
  have 2: "map_option cs_status (class_sessions example_paused ''s1'') = Some ''paused''"
    by (simp add: example_paused_session)
  have 3: "attendance_records example_paused = []"
    by (simp add: example_paused_def pause_def session_with_status_def example_active_eq
        example_active_session_def Let_def)
  from 1 2 3 show ?thesis by simp
qed

section \<open>Lifecycle transitions\<close>

lemma guarded_transitions_refuse:
  "session_with_status w sid ''scheduled'' = None \<Longrightarrow>
     activate e sid nts now nc sec w = (Failed 400 ''Session not found or already activated'', w)"
  "session_with_status w sid ''active'' = None \<Longrightarrow>
     pause sid w = (Failed 400 ''Session not found or not active'', w)"
  "session_with_status w sid ''paused'' = None \<Longrightarrow>
     resume e sid now nc sec w = (Failed 400 ''Session not found or not paused'', w)"
  by (simp_all add: activate_def pause_def resume_def)

lemma cancel_result:
  "class_sessions w sid = Some s \<Longrightarrow>
   class_sessions (snd (cancel sid nts w)) sid
     = Some (s\<lparr> cs_status := ''cancelled'', cs_is_active := False, cs_qr_expires_at := None,
               cs_notes := or_null nts \<rparr>)
   \<and> fst (cancel sid nts w)
     = Session_ok (s\<lparr> cs_status := ''cancelled'', cs_is_active := False, cs_qr_expires_at := None,
               cs_notes := or_null nts \<rparr>) None
   \<and> enrollments (snd (cancel sid nts w)) = enrollments w
   \<and> attendance_records (snd (cancel sid nts w)) = attendance_records w"
  by (simp add: cancel_def Let_def update_session_sessions)

lemma example_cancelled_facts:
  "class_sessions example_cancelled ''s1''
     = Some (example_session \<lparr> cs_status := ''cancelled'' \<rparr>)"
  "enrollments example_cancelled = enrollments example_world"
  "attendance_records example_cancelled = []"
proof -
  have s: "class_sessions example_world ''s1'' = Some example_session"
    by (simp add: example_world_def)
  from cancel_result [OF s, of None]
  show "class_sessions example_cancelled ''s1'' = Some (example_session \<lparr> cs_status := ''cancelled'' \<rparr>)"
    "enrollments example_cancelled = enrollments example_world"
    "attendance_records example_cancelled = []"
    by (simp_all add: example_cancelled_def or_null_def example_session_def example_world_def)
qed

text \<open>
  C4 (what the code does). The complete and the cancel endpoint do not look at the
  status. The scheduled session is cancelled, which is a transition of the table; then
  the complete endpoint, on the cancelled session, answers with success, inserts an
  \<^verbatim>\<open>absent\<close> record for both enrolled students and marks the session
  \<^verbatim>\<open>completed\<close>; then the cancel endpoint, on the completed session, answers with
  success and marks it \<^verbatim>\<open>cancelled\<close>.
\<close>

theorem complete_and_cancel_unguarded:
  "map_option cs_status (class_sessions example_cancelled ''s1'') = Some ''cancelled''
   \<and> (\<exists>s'. fst (complete example_env ''s1'' 1704711600000 example_cancelled) = Session_ok s' None
          \<and> cs_status s' = ''completed'')
   \<and> map_option cs_status
        (class_sessions (snd (complete example_env ''s1'' 1704711600000 example_cancelled)) ''s1'')
      = Some ''completed''
   \<and> map ar_view
        (attendance_records (snd (complete example_env ''s1'' 1704711600000 example_cancelled)))
      = [(''s1'', ''u1'', ''absent'', 0, 1704711600000),
         (''s1'', ''u2'', ''absent'', 0, 1704711600000)]
   \<and> (\<exists>s'. fst (cancel ''s1'' None
                   (snd (complete example_env ''s1'' 1704711600000 example_cancelled)))
             = Session_ok s' None
          \<and> cs_status s' = ''cancelled'')"
proof -
  let ?s = "example_session \<lparr> cs_status := ''cancelled'' \<rparr>"
  let ?w' = "snd (complete example_env ''s1'' 1704711600000 example_cancelled)"
  note f = example_cancelled_facts
  have c1: "cs_class_instance_id ?s = ''c1''" by (simp add: example_session_def)
  have need: "studentsNeedingRecords example_cancelled ''s1'' ''c1'' = [''u1'', ''u2'']"
    by (simp add: studentsNeedingRecords_def Let_def active_enrollments_def
          records_of_session_def f example_world_def)
  have d: "distinct (map en_student_id (active_enrollments example_cancelled (cs_class_instance_id ?s)))"
    by (simp add: c1 active_enrollments_def f example_world_def)
  from complete_result [OF d f(1), of example_env 1704711600000] obtain new s' where
    r: "attendance_records ?w' = attendance_records example_cancelled @ new"
       "map ar_view new = map (\<lambda>u. (''s1'', u, ''absent'', 0, 1704711600000))
                 (studentsNeedingRecords example_cancelled ''s1'' (cs_class_instance_id ?s))"
       "class_sessions ?w' ''s1'' = Some s'"
       "cs_status s' = ''completed''"
       "fst (complete example_env ''s1'' 1704711600000 example_cancelled) = Session_ok s' None"
    by blast
  have 1: "map_option cs_status (class_sessions example_cancelled ''s1'') = Some ''cancelled''"
    by (simp add: f)
  have 2: "\<exists>s'. fst (complete example_env ''s1'' 1704711600000 example_cancelled) = Session_ok s' None
          \<and> cs_status s' = ''completed''"
    using r(4,5) by blast
  have 3: "map_option cs_status (class_sessions ?w' ''s1'') = Some ''completed''"
    using r(3,4) by simp
  have 4: "map ar_view (attendance_records ?w')
      = [(''s1'', ''u1'', ''absent'', 0, 1704711600000),
         (''s1'', ''u2'', ''absent'', 0, 1704711600000)]"
    using r(1,2) by (simp add: f c1 need)
  from cancel_result [OF r(3), of None]
  have 5: "\<exists>s'. fst (cancel ''s1'' None ?w') = Session_ok s' None \<and> cs_status s' = ''cancelled''"
    by simp
  from 1 2 3 4 5 show ?thesis by blast
qed

section \<open>The invariant of the session row\<close>

lemma update_session_invariant:
  assumes "world_invariant w"
      and "\<And>s. class_sessions w sid = Some s \<Longrightarrow> session_invariant s \<Longrightarrow> session_invariant (f s)"
  shows "world_invariant (update_session sid f w)"
  using assms
  by (auto simp: world_invariant_def update_session_sessions split: option.splits if_splits)

lemma world_invariant_sessions:
  "class_sessions w' = class_sessions w \<Longrightarrow> world_invariant w' = world_invariant w"
  by (simp add: world_invariant_def)

lemma insert_row_invariant:
  assumes "insert_row n now w = Inr (r, w')" and "world_invariant w"
  shows "world_invariant w'"
proof -
  let ?w1 = "w\<lparr>attendance_records := attendance_records w @
                [\<lparr> ar_id = next_id w, ar_session_id = na_session_id n,
                    ar_student_id = na_student_id n,
                    ar_scanned_at = (case na_scanned_at n of None \<Rightarrow> now | Some t \<Rightarrow> t),
                    ar_status = na_status n,
                    ar_minutes_late = (case na_minutes_late n of None \<Rightarrow> 0 | Some m \<Rightarrow> m),
                    ar_device_fingerprint = stored_fingerprint (na_device_fingerprint n),
                    ar_ip_address = na_ip_address n \<rparr>],
              next_id := Suc (next_id w)\<rparr>"
  have i1: "world_invariant ?w1" using assms(2) by (simp add: world_invariant_def)
  from assms(1) have "w' = update_session_attendance_count (na_session_id n) ?w1"
    by (auto simp: insert_row_def Let_def split: if_splits)
  then show ?thesis
    unfolding update_session_attendance_count_def
    using update_session_invariant [OF i1] by (simp add: session_invariant_def)
qed

lemma insert_rows_invariant:
  "insert_rows ns now w = Inr w' \<Longrightarrow> world_invariant w \<Longrightarrow> world_invariant w'"
proof (induction ns arbitrary: w)
  case Nil
  then show ?case by simp
next
  case (Cons n ns)
  from Cons.prems(1) obtain r w1 where 1: "insert_row n now w = Inr (r, w1)"
    and 2: "insert_rows ns now w1 = Inr w'"
    by (auto split: sum.splits)
  from insert_row_invariant [OF 1 Cons.prems(2)] Cons.IH [OF 2] show ?case by simp
qed

lemma reconciliation_invariant:
  "reconciliation sid c now w = Inr w' \<Longrightarrow> world_invariant w \<Longrightarrow> world_invariant w'"
  using insert_rows_invariant [of _ now w w']
  by (auto simp: reconciliation_def Let_def split: if_splits)

lemma notify_sessions [simp]:
  "class_sessions (notifyStudentsSessionActivated sid w) = class_sessions w"
  by (simp add: notifyStudentsSessionActivated_def Let_def split: option.splits)

lemma lifecycle_keeps_invariant:
  assumes "world_invariant w"
  shows "world_invariant (snd (activate e sid nts now nc sec w))"
    and "world_invariant (snd (pause sid w))"
    and "world_invariant (snd (resume e sid now nc sec w))"
    and "world_invariant (snd (cancel sid nts w))"
    and "world_invariant (snd (complete e sid now w))"
    and "world_invariant (snd (completeSessionAutomatically e sid now w))"
proof -
  have stop: "world_invariant (stopQRCodeRotation sid w)"
    using assms by (simp add: world_invariant_sessions [of "stopQRCodeRotation sid w" w])
  show "world_invariant (snd (activate e sid nts now nc sec w))"
  proof (cases "session_with_status w sid ''scheduled''")
    case None
    then show ?thesis using assms by (simp add: activate_def)
  next
    case (Some session)
    let ?u = "session\<lparr> cs_status := ''active'', cs_is_active := True,
                         cs_qr_secret := Some (secret (generateSecureQR (hmac_of e) (QR_SECRET e) sid now nc sec)),
                         cs_qr_expires_at := Some (expires_at (generateSecureQR (hmac_of e) (QR_SECRET e) sid now nc sec)),
                         cs_notes := or_null nts \<rparr>"
    have "world_invariant (update_session sid (\<lambda>s. ?u) w)"
      by (rule update_session_invariant [OF assms]) (simp add: session_invariant_def)
    then show ?thesis using Some
      by (simp add: activate_def Let_def world_invariant_def)
  qed
  show "world_invariant (snd (pause sid w))"
  proof (cases "session_with_status w sid ''active''")
    case None
    then show ?thesis using assms by (simp add: pause_def)
  next
    case (Some session)
    have "world_invariant (update_session sid
            (\<lambda>s. session\<lparr> cs_status := ''paused'', cs_is_active := False, cs_qr_expires_at := None \<rparr>)
            (stopQRCodeRotation sid w))"
      by (rule update_session_invariant [OF stop]) (simp add: session_invariant_def)
    then show ?thesis using Some by (simp add: pause_def Let_def)
  qed
  show "world_invariant (snd (resume e sid now nc sec w))"
  proof (cases "session_with_status w sid ''paused''")
    case None
    then show ?thesis using assms by (simp add: resume_def)
  next
    case (Some session)
    let ?u = "session\<lparr> cs_status := ''active'', cs_is_active := True,
                         cs_qr_secret := Some (secret (generateSecureQR (hmac_of e) (QR_SECRET e) sid now nc sec)),
                         cs_qr_expires_at := Some (expires_at (generateSecureQR (hmac_of e) (QR_SECRET e) sid now nc sec)) \<rparr>"
    have "world_invariant (update_session sid (\<lambda>s. ?u) w)"
      by (rule update_session_invariant [OF assms]) (simp add: session_invariant_def)
    then show ?thesis using Some
      by (simp add: resume_def Let_def world_invariant_def)
  qed
  show "world_invariant (snd (cancel sid nts w))"
  proof (cases "class_sessions w sid")
    case None
    then show ?thesis using stop by (simp add: cancel_def)
  next
    case (Some s)
    have "world_invariant (update_session sid
            (\<lambda>x. s\<lparr> cs_status := ''cancelled'', cs_is_active := False,
                                      cs_qr_expires_at := None, cs_notes := or_null nts \<rparr>)
            (stopQRCodeRotation sid w))"
      by (rule update_session_invariant [OF stop]) (simp add: session_invariant_def)
    then show ?thesis using Some by (simp add: cancel_def Let_def)
  qed
  have mc: "\<And>w2. world_invariant w2 \<Longrightarrow> world_invariant (update_session sid mark_completed w2)"
    by (rule update_session_invariant) (simp_all add: session_invariant_def mark_completed_def)
  have em: "\<And>w2 evs. world_invariant (emit e evs w2) = world_invariant w2"
    by (simp add: world_invariant_def)
  show "world_invariant (snd (complete e sid now w))"
    using stop mc em reconciliation_invariant [of sid _ now "stopQRCodeRotation sid w"]
    by (auto simp: complete_def Let_def split: option.splits sum.splits)
  show "world_invariant (snd (completeSessionAutomatically e sid now w))"
    using assms stop mc em reconciliation_invariant [of sid _ now "stopQRCodeRotation sid w"]
    by (auto simp: completeSessionAutomatically_def Let_def split: option.splits sum.splits)
qed

section \<open>The generic update\<close>

text \<open>
  C8 (what the code does). The row of the activated session satisfies the invariant. The
  PUT endpoint, asked to write the status \<^verbatim>\<open>cancelled\<close>, writes the status and
  nothing else: the row is then \<^verbatim>\<open>cancelled\<close> with \<^verbatim>\<open>is_active\<close> true and an
  expiry, which the cancel endpoint would have cleared.
\<close>

theorem put_session_breaks_invariant:
  "class_sessions example_active ''s1'' = Some example_active_session
   \<and> session_invariant example_active_session
   \<and> class_sessions (snd (put_session ''s1'' (status_only ''cancelled'') example_active)) ''s1''
       = Some (example_active_session \<lparr> cs_status := ''cancelled'' \<rparr>)
   \<and> cs_is_active (example_active_session \<lparr> cs_status := ''cancelled'' \<rparr>)
   \<and> cs_qr_expires_at (example_active_session \<lparr> cs_status := ''cancelled'' \<rparr>) = Some 1704708030000
   \<and> \<not> session_invariant (example_active_session \<lparr> cs_status := ''cancelled'' \<rparr>)
   \<and> session_invariant (example_active_session
         \<lparr> cs_status := ''cancelled'', cs_is_active := False, cs_qr_expires_at := None,
           cs_notes := None \<rparr>)"
  by (simp add: example_active_eq put_session_def update_session_sessions updateData_def
        status_only_def given_def session_invariant_def example_active_session_def
        example_session_def)

section \<open>Starting a rotation twice\<close>

lemma activate_rotation:
  "session_with_status w sid ''scheduled'' = Some session \<Longrightarrow>
   intervals (snd (activate e sid nts now nc sec w)) = intervals w @ [(next_handle w, sid)]
   \<and> activeRotations (snd (activate e sid nts now nc sec w)) = (activeRotations w)(sid \<mapsto> next_handle w)
   \<and> next_handle (snd (activate e sid nts now nc sec w)) = Suc (next_handle w)
   \<and> (\<exists>s'. class_sessions (snd (activate e sid nts now nc sec w)) sid = Some s'
          \<and> cs_status s' = ''active'')"
  by (auto simp: activate_def Let_def notifyStudentsSessionActivated_def startQRCodeRotation_def
        update_session_sessions session_with_status_def split: option.splits if_splits)

lemma put_session_frame:
  "class_sessions w sid = Some s \<Longrightarrow>
   intervals (snd (put_session sid b w)) = intervals w
   \<and> activeRotations (snd (put_session sid b w)) = activeRotations w
   \<and> next_handle (snd (put_session sid b w)) = next_handle w
   \<and> class_sessions (snd (put_session sid b w)) sid = Some (updateData b s)"
  by (simp add: put_session_def update_session_sessions)

lemma pause_rotation:
  "session_with_status w sid ''active'' = Some session \<Longrightarrow>
   intervals (snd (pause sid w)) = intervals (stopQRCodeRotation sid w)
   \<and> activeRotations (snd (pause sid w)) = activeRotations (stopQRCodeRotation sid w)
   \<and> fst (pause sid w) = Session_ok (session\<lparr> cs_status := ''paused'', cs_is_active := False,
                                        cs_qr_expires_at := None \<rparr>) None"
  by (simp add: pause_def Let_def)

lemma pause_session:
  "session_with_status w sid ''active'' = Some session \<Longrightarrow>
   class_sessions (snd (pause sid w)) sid
     = Some (session\<lparr> cs_status := ''paused'', cs_is_active := False, cs_qr_expires_at := None \<rparr>)"
  by (auto simp: pause_def Let_def update_session_sessions session_with_status_def
           split: option.splits if_splits)

lemma rotation_tick_session:
  "class_sessions w sid = Some s \<Longrightarrow>
   class_sessions (rotation_tick e sid now nc sec w) sid
     = Some (s\<lparr> cs_qr_secret := Some sec, cs_qr_expires_at := Some (now + 30000) \<rparr>)"
  by (simp add: rotation_tick_def Let_def update_session_sessions generateSecureQR_def
        QR_EXPIRY_SECONDS_def)

lemma example_reactivated_timers:
  "intervals example_reactivated = [(0, ''s1''), (1, ''s1'')]"
  "activeRotations example_reactivated = [''s1'' \<mapsto> 1]"
  "\<exists>s'. session_with_status example_reactivated ''s1'' ''active'' = Some s'"
proof -
  let ?wp = "snd (put_session ''s1'' (status_only ''scheduled'') example_active)"
  have a: "class_sessions example_active ''s1'' = Some example_active_session"
    "intervals example_active = [(0, ''s1'')]" "activeRotations example_active = [''s1'' \<mapsto> 0]"
    "next_handle example_active = Suc 0"
    by (simp_all add: example_active_eq)
  note p = put_session_frame [OF a(1), of "status_only ''scheduled''"]
  have sch: "session_with_status ?wp ''s1'' ''scheduled''
               = Some (updateData (status_only ''scheduled'') example_active_session)"
    using p by (simp add: session_with_status_def updateData_def status_only_def given_def)
  note r = activate_rotation [OF sch, of example_env None 1704708060000 "''a3''" "''b3''"]
  from r p a show "intervals example_reactivated = [(0, ''s1''), (1, ''s1'')]"
    by (simp add: example_reactivated_def)
  from r p a show "activeRotations example_reactivated = [''s1'' \<mapsto> 1]"
    by (simp add: example_reactivated_def)
  from r show "\<exists>s'. session_with_status example_reactivated ''s1'' ''active'' = Some s'"
    by (auto simp: example_reactivated_def session_with_status_def)
qed

text \<open>
  C9 (what the code does). \<^verbatim>\<open>startQRCodeRotation\<close> has no test for a session that is
  rotating: a second start makes a second live interval and overwrites the entry of
  \<^verbatim>\<open>activeRotations\<close>, so \<^verbatim>\<open>stopQRCodeRotation\<close> clears the second interval only and
  the first goes on issuing tokens. Through the endpoints: the active session is set
  back to \<^verbatim>\<open>scheduled\<close> by the PUT endpoint and activated again; after the pause that
  follows, one interval of the session is still live and no entry for it is left in
  the map; when that interval fires, a new token and its expiry are written to the row
  of the paused session.
\<close>

theorem start_rotation_twice:
  "intervals (startQRCodeRotation ''s1'' example_world) = [(0, ''s1'')]
   \<and> intervals (startQRCodeRotation ''s1'' (startQRCodeRotation ''s1'' example_world))
       = [(0, ''s1''), (1, ''s1'')]
   \<and> intervals (stopQRCodeRotation ''s1''
                  (startQRCodeRotation ''s1'' (startQRCodeRotation ''s1'' example_world)))
       = [(0, ''s1'')]
   \<and> activeRotations (stopQRCodeRotation ''s1''
                  (startQRCodeRotation ''s1'' (startQRCodeRotation ''s1'' example_world))) ''s1''
       = None
   \<and> rotating (stopQRCodeRotation ''s1''
                  (startQRCodeRotation ''s1'' (startQRCodeRotation ''s1'' example_world))) ''s1''
   \<and> intervals example_reactivated = [(0, ''s1''), (1, ''s1'')]
   \<and> (\<exists>s'. fst (pause ''s1'' example_reactivated) = Session_ok s' None \<and> cs_status s' = ''paused'')
   \<and> intervals (snd (pause ''s1'' example_reactivated)) = [(0, ''s1'')]
   \<and> activeRotations (snd (pause ''s1'' example_reactivated)) ''s1'' = None
   \<and> rotating (snd (pause ''s1'' example_reactivated)) ''s1''
   \<and> (\<exists>s'. class_sessions
               (rotation_tick example_env ''s1'' 1704708090000 ''a4'' ''b4''
                  (snd (pause ''s1'' example_reactivated))) ''s1'' = Some s'
          \<and> cs_status s' = ''paused'' \<and> cs_qr_secret s' = Some ''b4''
          \<and> cs_qr_expires_at s' = Some 1704708120000)"
proof -
  have f: "intervals (startQRCodeRotation ''s1'' example_world) = [(0, ''s1'')]"
    "intervals (startQRCodeRotation ''s1'' (startQRCodeRotation ''s1'' example_world))
       = [(0, ''s1''), (1, ''s1'')]"
    "intervals (stopQRCodeRotation ''s1''
                  (startQRCodeRotation ''s1'' (startQRCodeRotation ''s1'' example_world)))
       = [(0, ''s1'')]"
    "activeRotations (stopQRCodeRotation ''s1''
                  (startQRCodeRotation ''s1'' (startQRCodeRotation ''s1'' example_world))) ''s1''
       = None"
    by (simp_all add: startQRCodeRotation_def stopQRCodeRotation_def Let_def example_world_def)
  from f(3) have f5: "rotating (stopQRCodeRotation ''s1''
                  (startQRCodeRotation ''s1'' (startQRCodeRotation ''s1'' example_world))) ''s1''"
    by (simp add: rotating_def)
  note t = example_reactivated_timers
  from t(3) obtain s' where s': "session_with_status example_reactivated ''s1'' ''active'' = Some s'"
    by blast
  note p = pause_rotation [OF s']
  have st: "intervals (stopQRCodeRotation ''s1'' example_reactivated) = [(0, ''s1'')]"
    "activeRotations (stopQRCodeRotation ''s1'' example_reactivated) ''s1'' = None"
    by (simp_all add: stopQRCodeRotation_def t)
  from p have g1: "\<exists>s'. fst (pause ''s1'' example_reactivated) = Session_ok s' None
                       \<and> cs_status s' = ''paused''"
    by simp
  from p st have g2: "intervals (snd (pause ''s1'' example_reactivated)) = [(0, ''s1'')]"
    and g3: "activeRotations (snd (pause ''s1'' example_reactivated)) ''s1'' = None"
    by simp_all
  from g2 have g4: "rotating (snd (pause ''s1'' example_reactivated)) ''s1''"
    by (simp add: rotating_def)
  from rotation_tick_session [OF pause_session [OF s'], of example_env 1704708090000 "''a4''" "''b4''"]
  have g5: "\<exists>s'. class_sessions
               (rotation_tick example_env ''s1'' 1704708090000 ''a4'' ''b4''
                  (snd (pause ''s1'' example_reactivated))) ''s1'' = Some s'
          \<and> cs_status s' = ''paused'' \<and> cs_qr_secret s' = Some ''b4''
          \<and> cs_qr_expires_at s' = Some 1704708120000"
    by simp
  from f f5 t(1) g1 g2 g3 g4 g5 show ?thesis by blast
qed

end
